theory Spec2Isabelle
  imports Main "HOL-Library.Word"
begin

unbundle bit_operations_syntax

section \<open>Data model of g10/keyserver.cpp\<close>

type_synonym byte = "8 word"
type_synonym u32 = "32 word"

text \<open>
  Modelled from the spec: the enum of search modes, which keydb.h declares and
  keyserver.cpp only uses. The constructors are the modes of the data model under the
  names that keyserver.cpp gives them: the four key modes, the exact name, the two
  iteration modes and NONE, and the substring search as one of the name lookups that
  \<^verbatim>\<open>classify_user_id\<close> can also return. \<^verbatim>\<open>KEYDB_SEARCH_MODE_NONE\<close> is the zero value:
  the code tests it with \<^verbatim>\<open>if (work->desc.mode)\<close>.
\<close>

datatype search_mode =
    KEYDB_SEARCH_MODE_NONE
  | KEYDB_SEARCH_MODE_EXACT
  | KEYDB_SEARCH_MODE_SUBSTR
  | KEYDB_SEARCH_MODE_SHORT_KID
  | KEYDB_SEARCH_MODE_LONG_KID
  | KEYDB_SEARCH_MODE_FPR16
  | KEYDB_SEARCH_MODE_FPR20
  | KEYDB_SEARCH_MODE_FIRST
  | KEYDB_SEARCH_MODE_NEXT

text \<open>
  Modelled from the spec: the struct \<^verbatim>\<open>KEYDB_SEARCH_DESC\<close> of keydb.h, as far as
  keyserver.cpp reads it: the mode and the members of the union \<^verbatim>\<open>u\<close>, which are
  \<^verbatim>\<open>u.kid[0]\<close> (high half of a key id), \<^verbatim>\<open>u.kid[1]\<close> (low half), the byte array
  \<^verbatim>\<open>u.fpr\<close> and the string \<^verbatim>\<open>u.name\<close>.
\<close>

record KEYDB_SEARCH_DESC =
  desc_mode :: search_mode
  u_kid0 :: u32
  u_kid1 :: u32
  u_fpr :: "byte list"
  u_name :: string

text \<open>
  The error codes that keyserver.cpp returns itself, with \<^verbatim>\<open>GPG_ERR_NO_ERROR\<close> for 0
  and \<^verbatim>\<open>GPG_ERR_ENOMEM\<close> for the \<^verbatim>\<open>gpg_error_from_syserror ()\<close> after a failed
  allocation, and the codes that the transport may return.
\<close>

datatype gpg_error_t =
    GPG_ERR_NO_ERROR
  | GPG_ERR_GENERAL
  | GPG_ERR_CANCELED
  | GPG_ERR_UNSUPPORTED_PROTOCOL
  | GPG_ERR_ENOMEM
  | GPG_ERR_TRANSPORT nat

text \<open>
  Conditions under which the C program does not return at all: \<^verbatim>\<open>BUG()\<close> aborts the
  process, and reads or writes through a freed pointer or past an array are undefined.
\<close>

datatype fault = BUG | USE_AFTER_FREE | OUT_OF_BOUNDS

text \<open>
  Modelled from the spec: the packet types of packet.h that occur in a keyblock; the
  screener tells public keys and subkeys and secret keys from all others.
\<close>

datatype pkttype_t =
    PKT_PUBLIC_KEY
  | PKT_PUBLIC_SUBKEY
  | PKT_SECRET_KEY
  | PKT_SECRET_SUBKEY
  | PKT_USER_ID
  | PKT_SIGNATURE

text \<open>
  Modelled from the spec: a node of a keyblock (packet.h, keydb.h). For a key packet
  the node carries what \<^verbatim>\<open>fingerprint_from_pk\<close> and \<^verbatim>\<open>keyid_from_pk\<close>, which
  keyserver.cpp calls and does not define, compute from it: the fingerprint bytes,
  whose number is \<^verbatim>\<open>fpr_len\<close>, and the two halves of the key id. A keyblock is the
  list of its nodes in \<^verbatim>\<open>next\<close> order.
\<close>

record kbnode =
  pkttype :: pkttype_t
  pk_fpr :: "byte list"
  pk_keyid0 :: u32
  pk_keyid1 :: u32

type_synonym kbnode_t = "kbnode list"

section \<open>keyserver_retrieval_screener\<close>

text \<open>
  Modelled from the spec: \<^verbatim>\<open>find_kbnode\<close> of kbnode.c, which the screener calls to
  find out whether the keyblock contains a secret-key packet: the first node of the
  given packet type, or NULL.
\<close>

definition find_kbnode :: "kbnode_t \<Rightarrow> pkttype_t \<Rightarrow> kbnode option" where
  "find_kbnode keyblock t = find (\<lambda>node. pkttype node = t) keyblock"

text \<open>
  The inner loop \<^verbatim>\<open>for (n = 0; n < ndesc; n++)\<close> for one key packet;
  \<open>True\<close> stands for its \<^verbatim>\<open>return 0\<close>, \<open>False\<close> for falling out of the loop.
  \<^verbatim>\<open>memcmp (fpr, desc[n].u.fpr, 20)\<close> compares the first 20 bytes of both arrays.
\<close>

fun screener_desc_loop :: "kbnode \<Rightarrow> KEYDB_SEARCH_DESC list \<Rightarrow> bool" where
  "screener_desc_loop pk [] = False"
| "screener_desc_loop pk (d # ds) =
     (if desc_mode d = KEYDB_SEARCH_MODE_FPR20 then
        (if length (pk_fpr pk) = 20 \<and> take 20 (pk_fpr pk) = take 20 (u_fpr d) then True
         else screener_desc_loop pk ds)
      else if desc_mode d = KEYDB_SEARCH_MODE_FPR16 then
        (if length (pk_fpr pk) = 16 \<and> take 16 (pk_fpr pk) = take 16 (u_fpr d) then True
         else screener_desc_loop pk ds)
      else if desc_mode d = KEYDB_SEARCH_MODE_LONG_KID then
        (if pk_keyid0 pk = u_kid0 d \<and> pk_keyid1 pk = u_kid1 d then True
         else screener_desc_loop pk ds)
      else if desc_mode d = KEYDB_SEARCH_MODE_SHORT_KID then
        (if pk_keyid1 pk = u_kid1 d then True
         else screener_desc_loop pk ds)
      else True)"

text \<open>The outer loop \<^verbatim>\<open>for (node = keyblock; node; node = node->next)\<close>.\<close>

fun screener_node_loop :: "kbnode_t \<Rightarrow> KEYDB_SEARCH_DESC list \<Rightarrow> gpg_error_t" where
  "screener_node_loop [] desc = GPG_ERR_GENERAL"
| "screener_node_loop (node # rest) desc =
     (if pkttype node \<noteq> PKT_PUBLIC_KEY \<and> pkttype node \<noteq> PKT_PUBLIC_SUBKEY
      then screener_node_loop rest desc
      else if screener_desc_loop node desc then GPG_ERR_NO_ERROR
      else screener_node_loop rest desc)"

text \<open>
  The screener: \<open>desc\<close> is the array \<^verbatim>\<open>arg->desc\<close> of \<^verbatim>\<open>arg->ndesc\<close> entries.
  \<open>GPG_ERR_NO_ERROR\<close> means the key shall be imported.
\<close>

definition keyserver_retrieval_screener ::
    "kbnode_t \<Rightarrow> KEYDB_SEARCH_DESC list \<Rightarrow> gpg_error_t" where
  "keyserver_retrieval_screener keyblock desc =
     (if find_kbnode keyblock PKT_SECRET_KEY \<noteq> None then GPG_ERR_GENERAL
      else if length desc = 0 then GPG_ERR_NO_ERROR
      else screener_node_loop keyblock desc)"

section \<open>keyserver_get_chunk and keyserver_get\<close>

text \<open>
  Modelled from the spec: \<^verbatim>\<open>bin2hex\<close> of the common library, which writes a
  fingerprint as hexadecimal digits, two per byte. The digits are upper-case, as are
  those of the format \<^verbatim>\<open>%08lX\<close>, which writes a 32-bit value as eight digits.
\<close>

definition hexdigit :: "nat \<Rightarrow> char" where
  "hexdigit n = ''0123456789ABCDEF'' ! (n mod 16)"

definition bin2hex :: "byte list \<Rightarrow> string" where
  "bin2hex bs = concat (map (\<lambda>b. [hexdigit (unat (drop_bit 4 b)), hexdigit (unat (b AND 15))]) bs)"

definition hex08 :: "u32 \<Rightarrow> string" where
  "hex08 w = map (\<lambda>i. hexdigit (unat (drop_bit (4 * i) w AND 15))) [7, 6, 5, 4, 3, 2, 1, 0]"

definition MAX_KS_GET_LINELEN :: nat where
  "MAX_KS_GET_LINELEN = 950"

text \<open>
  The loop \<^verbatim>\<open>for (npat = idx = 0; idx < ndesc; idx++)\<close> of \<^verbatim>\<open>keyserver_get_chunk\<close>.
  The first argument is the rest of the array from \<^verbatim>\<open>desc[idx]\<close> on, \<open>pattern\<close> holds
  the \<^verbatim>\<open>npat\<close> patterns written so far, and the result is the pattern array with the
  final \<^verbatim>\<open>idx\<close>. Memory allocation is taken to succeed. \<^verbatim>\<open>linelen\<close> and \<^verbatim>\<open>n\<close>
  are \<^verbatim>\<open>size_t\<close>; they are natural numbers here, far from the 64-bit bound for any
  string that fits in memory.
\<close>

fun chunk_loop ::
    "KEYDB_SEARCH_DESC list \<Rightarrow> nat \<Rightarrow> string list \<Rightarrow> nat \<Rightarrow> fault + (string list \<times> nat)" where
  "chunk_loop [] idx pattern linelen = Inr (pattern, idx)"
| "chunk_loop (d # ds) idx pattern linelen =
     (if desc_mode d = KEYDB_SEARCH_MODE_FPR20 \<or> desc_mode d = KEYDB_SEARCH_MODE_FPR16 then
        (let n = 1 + 2 + 2 * 20 in
         if idx \<noteq> 0 \<and> linelen + n > MAX_KS_GET_LINELEN then Inr (pattern, idx)
         else chunk_loop ds (idx + 1)
                (pattern @ [''0x'' @ bin2hex (take (if desc_mode d = KEYDB_SEARCH_MODE_FPR20
                                                    then 20 else 16) (u_fpr d))])
                (linelen + n))
      else if desc_mode d = KEYDB_SEARCH_MODE_LONG_KID then
        (let n = 1 + 2 + 16 in
         if idx \<noteq> 0 \<and> linelen + n > MAX_KS_GET_LINELEN then Inr (pattern, idx)
         else chunk_loop ds (idx + 1)
                (pattern @ [''0x'' @ hex08 (u_kid0 d) @ hex08 (u_kid1 d)]) (linelen + n))
      else if desc_mode d = KEYDB_SEARCH_MODE_SHORT_KID then
        (let n = 1 + 2 + 8 in
         if idx \<noteq> 0 \<and> linelen + n > MAX_KS_GET_LINELEN then Inr (pattern, idx)
         else chunk_loop ds (idx + 1) (pattern @ [''0x'' @ hex08 (u_kid1 d)]) (linelen + n))
      else if desc_mode d = KEYDB_SEARCH_MODE_EXACT then
        (let n = 1 + 1 + length (u_name d) in
         if idx \<noteq> 0 \<and> linelen + n > MAX_KS_GET_LINELEN then Inr (pattern, idx)
         else chunk_loop ds (idx + 1) (pattern @ [''='' @ u_name d]) (linelen + n))
      else if desc_mode d = KEYDB_SEARCH_MODE_NONE then
        chunk_loop ds (idx + 1) pattern linelen
      else Inl BUG)"

text \<open>
  The transport \<^verbatim>\<open>gpg_dirmngr_ks_get\<close> (call-dirmngr.c) is a parameter: from the
  patterns of one request to an error code and the keyblocks of the returned data
  stream.
\<close>

type_synonym ks_get_t = "string list \<Rightarrow> gpg_error_t \<times> kbnode_t list"

text \<open>
  What one call of \<^verbatim>\<open>keyserver_get_chunk\<close> leaves behind: its return value, the
  value stored in \<^verbatim>\<open>*r_ndesc_used\<close>, the patterns sent, and the keyblocks imported.
  Modelled from the spec: \<^verbatim>\<open>import_keys_es_stream\<close> of import.c, which streams the
  returned key material through the screener before passing it to the import sink, so
  that the keyblocks imported are those the screener lets pass. The screener sees the
  array \<^verbatim>\<open>desc\<close> with \<^verbatim>\<open>ndesc = *r_ndesc_used\<close>.
\<close>

record chunk_result =
  chunk_err :: gpg_error_t
  r_ndesc_used :: nat
  chunk_pattern :: "string list"
  chunk_imported :: "kbnode_t list"

definition keyserver_get_chunk ::
    "ks_get_t \<Rightarrow> KEYDB_SEARCH_DESC list \<Rightarrow> fault + chunk_result" where
  "keyserver_get_chunk ks desc =
     (case chunk_loop desc 0 [] 17 of
        Inl f \<Rightarrow> Inl f
      | Inr (pattern, idx) \<Rightarrow>
          (let (err, datastream) = ks pattern in
           Inr \<lparr> chunk_err = err, r_ndesc_used = idx, chunk_pattern = pattern,
                 chunk_imported =
                   (if err = GPG_ERR_NO_ERROR
                    then filter (\<lambda>keyblock.
                           keyserver_retrieval_screener keyblock (take idx desc) = GPG_ERR_NO_ERROR)
                           datastream
                    else []) \<rparr>))"

lemma chunk_loop_idx:
  "chunk_loop ds idx pattern linelen = Inr (pattern', used) \<Longrightarrow>
     idx \<le> used \<and> used \<le> idx + length ds \<and> (used = idx \<longrightarrow> ds = [] \<or> idx \<noteq> 0)"
proof (induction ds arbitrary: idx pattern linelen)
  case Nil
  then show ?case by simp
next
  case (Cons d ds)
  show ?case
    using Cons.prems Cons.IH [of "idx + 1"]
    by (simp add: Let_def split: if_splits) fastforce+
qed

lemma keyserver_get_chunk_progress:
  assumes "keyserver_get_chunk ks desc = Inr c" and "r_ndesc_used c < length desc"
  shows "0 < r_ndesc_used c"
proof -
  obtain pattern idx where loop: "chunk_loop desc 0 [] 17 = Inr (pattern, idx)"
    using assms(1) by (auto simp: keyserver_get_chunk_def split: sum.splits)
  with assms(1) have "r_ndesc_used c = idx"
    by (auto simp: keyserver_get_chunk_def split: prod.splits)
  with chunk_loop_idx [OF loop] assms(2) show ?thesis by auto
qed

text \<open>
  \<^verbatim>\<open>keyserver_get\<close>: the loop \<^verbatim>\<open>for (;;)\<close> over the chunks, with
  \<^verbatim>\<open>desc += ndesc_used; ndesc -= ndesc_used\<close> as the recursive call. The result is the
  returned error code and the chunks in the order they were requested.
\<close>

function keyserver_get ::
    "ks_get_t \<Rightarrow> KEYDB_SEARCH_DESC list \<Rightarrow> fault + (gpg_error_t \<times> chunk_result list)" where
  "keyserver_get ks desc =
     (case keyserver_get_chunk ks desc of
        Inl f \<Rightarrow> Inl f
      | Inr c \<Rightarrow>
          if chunk_err c \<noteq> GPG_ERR_NO_ERROR \<or> r_ndesc_used c \<ge> length desc
          then Inr (chunk_err c, [c])
          else (case keyserver_get ks (drop (r_ndesc_used c) desc) of
                  Inl f \<Rightarrow> Inl f
                | Inr (err, cs) \<Rightarrow> Inr (err, c # cs)))"
  by pat_completeness auto
termination
proof (relation "measure (\<lambda>(ks, desc). length desc)")
  show "wf (measure (\<lambda>(ks, desc). length desc))" by simp
next
  fix ks :: ks_get_t and desc :: "KEYDB_SEARCH_DESC list" and c
  assume c: "keyserver_get_chunk ks desc = Inr c"
    and more: "\<not> (chunk_err c \<noteq> GPG_ERR_NO_ERROR \<or> length desc \<le> r_ndesc_used c)"
  from more have "r_ndesc_used c < length desc" by simp
  with keyserver_get_chunk_progress [OF c] 
  show "((ks, drop (r_ndesc_used c) desc), (ks, desc)) \<in> measure (\<lambda>(ks, desc). length desc)"
    by simp
qed

declare keyserver_get.simps [simp del]

section \<open>String helpers used by the parser\<close>

text \<open>
  Modelled from the spec: \<^verbatim>\<open>gpg_strsep\<close> of the common library, which cuts off the
  next delimited field and has the semantics of \<^verbatim>\<open>strsep\<close>: with \<^verbatim>\<open>*stringp\<close> NULL it
  returns NULL; otherwise it returns the text up to the first delimiter and leaves
  \<^verbatim>\<open>*stringp\<close> just behind that delimiter, or NULL when there was none. The result is
  the pair of the returned token and the new \<^verbatim>\<open>*stringp\<close>.
\<close>

fun gpg_strsep :: "string option \<Rightarrow> string \<Rightarrow> string option \<times> string option" where
  "gpg_strsep None delim = (None, None)"
| "gpg_strsep (Some s) delim =
     (case dropWhile (\<lambda>c. c \<notin> set delim) s of
        [] \<Rightarrow> (Some s, None)
      | _ # rest \<Rightarrow> (Some (takeWhile (\<lambda>c. c \<notin> set delim) s), Some rest))"

definition ascii_toupper :: "char \<Rightarrow> char" where
  "ascii_toupper c =
     (let n = (of_char c :: nat) in if 97 \<le> n \<and> n \<le> 122 then char_of (n - 32) else c)"

text \<open>
  Modelled from the spec: \<^verbatim>\<open>ascii_strcasecmp\<close> and \<^verbatim>\<open>ascii_strncasecmp\<close> of the
  common library, the case-insensitive comparisons of the tag dispatch. They are only
  ever tested for the result 0, so every other result is 1 here.
\<close>

definition ascii_strcasecmp :: "string \<Rightarrow> string \<Rightarrow> int" where
  "ascii_strcasecmp a b = (if map ascii_toupper a = map ascii_toupper b then 0 else 1)"

definition ascii_strncasecmp :: "string \<Rightarrow> string \<Rightarrow> nat \<Rightarrow> int" where
  "ascii_strncasecmp a b n =
     (if map ascii_toupper (take n a) = map ascii_toupper (take n b) then 0 else 1)"

definition isspace :: "char \<Rightarrow> bool" where
  "isspace c = (c \<in> set [CHR '' '', CHR 0x09, CHR 0x0A, CHR 0x0B, CHR 0x0C, CHR 0x0D])"

definition isdigit :: "char \<Rightarrow> bool" where
  "isdigit c = (48 \<le> (of_char c :: nat) \<and> (of_char c :: nat) \<le> 57)"

fun digits_value :: "int \<Rightarrow> string \<Rightarrow> int" where
  "digits_value acc [] = acc"
| "digits_value acc (c # cs) =
     (if isdigit c then digits_value (10 * acc + (of_char c - 48)) cs else acc)"

text \<open>
  \<^verbatim>\<open>atoi\<close>: leading white space, an optional sign, then the longest run of decimal
  digits; 0 when there is no digit. The C standard leaves values outside \<^verbatim>\<open>int\<close>
  undefined; written out here is what the GNU C library does, which computes
  \<^verbatim>\<open>(int) strtol (s, NULL, 10)\<close>: saturation to 64 bits, then truncation to 32.
\<close>

definition strtol10 :: "string \<Rightarrow> int" where
  "strtol10 s =
     (let t = dropWhile isspace s;
          v = (case t of
                 [] \<Rightarrow> 0
               | c # r \<Rightarrow> if c = CHR ''-'' then - digits_value 0 r
                          else if c = CHR ''+'' then digits_value 0 r
                          else digits_value 0 t)
      in max (- (2 ^ 63)) (min (2 ^ 63 - 1) v))"

definition atoi :: "string \<Rightarrow> int" where
  "atoi s = sint (word_of_int (strtol10 s) :: 32 word)"

text \<open>
  \<^verbatim>\<open>sscanf (tok, "%d", &v)\<close>: \<open>Some v\<close> when the call returns 1, that is when a digit
  follows the optional white space and sign; \<open>None\<close> when it returns 0 or EOF and leaves
  \<^verbatim>\<open>v\<close> untouched.
\<close>

definition sscanf_d :: "string \<Rightarrow> int option" where
  "sscanf_d s =
     (let t = dropWhile isspace s;
          u = (case t of [] \<Rightarrow> [] | c # r \<Rightarrow> if c = CHR ''-'' \<or> c = CHR ''+'' then r else t)
      in case u of
           [] \<Rightarrow> None
         | c # _ \<Rightarrow> if isdigit c then Some (atoi s) else None)"

text \<open>
  Modelled from the spec: \<^verbatim>\<open>trim_trailing_ws\<close> of stringhelp.c, which cuts the line
  at the start of its trailing run of blanks, tabs, carriage returns and line feeds.
\<close>

definition trim_trailing_ws :: "string \<Rightarrow> string" where
  "trim_trailing_ws s =
     rev (dropWhile (\<lambda>c. c \<in> set [CHR '' '', CHR 0x09, CHR 0x0D, CHR 0x0A]) (rev s))"

definition hexdigit_value :: "char \<Rightarrow> nat option" where
  "hexdigit_value c =
     (let n = (of_char c :: nat) in
      if 48 \<le> n \<and> n \<le> 57 then Some (n - 48)
      else if 65 \<le> n \<and> n \<le> 70 then Some (n - 55)
      else if 97 \<le> n \<and> n \<le> 102 then Some (n - 87)
      else None)"

text \<open>
  Modelled from the spec: \<^verbatim>\<open>hextobyte\<close> of the common library, used for the
  percent-decoding: the value of two hexadecimal digits, or -1.
\<close>

definition hextobyte :: "char \<Rightarrow> char \<Rightarrow> int" where
  "hextobyte a b =
     (case (hexdigit_value a, hexdigit_value b) of
        (Some h, Some l) \<Rightarrow> int (16 * h + l)
      | _ \<Rightarrow> - 1)"

text \<open>A C string ends at its first NUL byte.\<close>

definition c_str :: "string \<Rightarrow> string" where
  "c_str s = takeWhile (\<lambda>c. c \<noteq> CHR 0x00) s"

section \<open>parse_keyrec\<close>

record keyrec =
  kr_desc :: KEYDB_SEARCH_DESC
  createtime :: u32
  expiretime :: u32
  kr_size :: int
  flags :: int
  kr_type :: byte
  uidbuf :: string
  lines :: u32

text \<open>The result of \<^verbatim>\<open>xmalloc_clear\<close> with a fresh, empty \<^verbatim>\<open>iobuf_temp ()\<close>.\<close>

definition keyrec_clear :: keyrec where
  "keyrec_clear =
     \<lparr> kr_desc = \<lparr> desc_mode = KEYDB_SEARCH_MODE_NONE, u_kid0 = 0, u_kid1 = 0,
                   u_fpr = [], u_name = [] \<rparr>,
       createtime = 0, expiretime = 0, kr_size = 0, flags = 0, kr_type = 0,
       uidbuf = [], lines = 0 \<rparr>"

text \<open>
  The static pointer \<^verbatim>\<open>work\<close>: NULL, pointing to a record, or still pointing to a
  record that \<^verbatim>\<open>xfree\<close> has released.
\<close>

datatype 'a pointer = NULL | Ptr 'a | Freed

text \<open>
  What keyserver.cpp takes from its surroundings, as parameters: \<^verbatim>\<open>classify_user_id\<close>
  (its error code and the descriptor it writes), \<^verbatim>\<open>utf8_to_native\<close>, the clock
  \<^verbatim>\<open>make_timestamp\<close>, the fields of the global \<^verbatim>\<open>opt\<close> that are read (the two screen
  dimensions and \<^verbatim>\<open>command_fd\<close> are of type \<^verbatim>\<open>int\<close>), the transport to dirmngr, and
  the allocator of the key array: \<open>xtrymalloc_desc n\<close> tells whether \<^verbatim>\<open>xtrymalloc\<close> or
  \<^verbatim>\<open>xtryrealloc\<close> returns memory for an array of \<open>n\<close> descriptors.
\<close>

record env =
  classify_user_id :: "string \<Rightarrow> gpg_error_t \<times> KEYDB_SEARCH_DESC"
  utf8_to_native :: "string \<Rightarrow> string"
  make_timestamp :: u32
  opt_screen_columns :: int
  opt_screen_lines :: int
  opt_with_colons :: bool
  opt_batch :: bool
  opt_command_fd :: int
  gpg_dirmngr_ks_get :: ks_get_t
  xtrymalloc_desc :: "int \<Rightarrow> bool"

text \<open>The loop \<^verbatim>\<open>while (*tok) switch (*tok++)\<close> over the flag characters.\<close>

fun flags_loop :: "int \<Rightarrow> string \<Rightarrow> int" where
  "flags_loop f [] = f"
| "flags_loop f (c # cs) =
     (if c = CHR ''r'' \<or> c = CHR ''R'' then flags_loop (f OR 1) cs
      else if c = CHR ''d'' \<or> c = CHR ''D'' then flags_loop (f OR 2) cs
      else if c = CHR ''e'' \<or> c = CHR ''E'' then flags_loop (f OR 4) cs
      else flags_loop f cs)"

text \<open>
  The optional fields of a pub line after the key id, from \<^verbatim>\<open>work->lines++\<close> on; every
  \<^verbatim>\<open>return ret\<close> in this part leaves the record as it is at that point.
\<close>

definition pub_fields :: "env \<Rightarrow> keyrec \<Rightarrow> string option \<Rightarrow> keyrec" where
  "pub_fields e work0 keystring0 =
     (let work1 = work0 \<lparr> lines := lines work0 + 1 \<rparr> in
      case gpg_strsep keystring0 '':'' of
        (None, _) \<Rightarrow> work1
      | (Some tok, keystring1) \<Rightarrow>
     (let work2 = work1 \<lparr> kr_type := word_of_int (atoi tok) \<rparr> in
      case gpg_strsep keystring1 '':'' of
        (None, _) \<Rightarrow> work2
      | (Some tok, keystring2) \<Rightarrow>
     (let work3 = work2 \<lparr> kr_size := atoi tok \<rparr> in
      case gpg_strsep keystring2 '':'' of
        (None, _) \<Rightarrow> work3
      | (Some tok, keystring3) \<Rightarrow>
     (let work4 = (if atoi tok \<le> 0 then work3 \<lparr> createtime := 0 \<rparr>
                   else work3 \<lparr> createtime := word_of_int (atoi tok) \<rparr>) in
      case gpg_strsep keystring3 '':'' of
        (None, _) \<Rightarrow> work4
      | (Some tok, keystring4) \<Rightarrow>
     (let work5 = (if atoi tok \<le> 0 then work4 \<lparr> expiretime := 0 \<rparr>
                   else (let w = work4 \<lparr> expiretime := word_of_int (atoi tok) \<rparr> in
                         if expiretime w \<le> make_timestamp e
                         then w \<lparr> flags := flags w OR 4 \<rparr> else w)) in
      case gpg_strsep keystring4 '':'' of
        (None, _) \<Rightarrow> work5
      | (Some tok, _) \<Rightarrow> work5 \<lparr> flags := flags_loop (flags work5) tok \<rparr>)))))"

text \<open>The pub branch; \<open>work0\<close> is the record \<^verbatim>\<open>work\<close> points to on entry.\<close>

definition parse_pub ::
    "env \<Rightarrow> keyrec \<Rightarrow> string option \<Rightarrow> keyrec option \<times> keyrec pointer" where
  "parse_pub e work0 keystring =
     (let (ret, work) =
            (if desc_mode (kr_desc work0) \<noteq> KEYDB_SEARCH_MODE_NONE
             then (Some work0, keyrec_clear) else (None, work0)) in
      case gpg_strsep keystring '':'' of
        (None, _) \<Rightarrow> (ret, Ptr work)
      | (Some tok, keystring1) \<Rightarrow>
          (let (err, d) = classify_user_id e tok;
               work1 = work \<lparr> kr_desc := d \<rparr> in
           if err \<noteq> GPG_ERR_NO_ERROR \<or>
              (desc_mode (kr_desc work1) \<noteq> KEYDB_SEARCH_MODE_SHORT_KID \<and>
               desc_mode (kr_desc work1) \<noteq> KEYDB_SEARCH_MODE_LONG_KID \<and>
               desc_mode (kr_desc work1) \<noteq> KEYDB_SEARCH_MODE_FPR16 \<and>
               desc_mode (kr_desc work1) \<noteq> KEYDB_SEARCH_MODE_FPR20)
           then (ret, Ptr (work1 \<lparr> kr_desc := (kr_desc work1)
                                       \<lparr> desc_mode := KEYDB_SEARCH_MODE_NONE \<rparr> \<rparr>))
           else (ret, Ptr (pub_fields e work1 keystring1))))"

text \<open>
  De-%-encoding in place: the write index never overtakes the read position, so the
  loop is a function of the text read. The result is \<^verbatim>\<open>userid[0..i)\<close>.
\<close>

fun percent_decode :: "string \<Rightarrow> string" where
  "percent_decode (c # a # b # rest) =
     (if c = CHR ''%''
      then (let v = hextobyte a b in
            (if v = - 1 then CHR ''?'' else char_of v) # percent_decode rest)
      else c # percent_decode (a # b # rest))"
| "percent_decode (c # rest) = c # percent_decode rest"
| "percent_decode [] = []"

text \<open>
  The uid branch, entered with \<^verbatim>\<open>work->desc.mode\<close> non-zero. \<^verbatim>\<open>strlen\<close> is compared
  with \<^verbatim>\<open>opt.screen_columns - 10\<close> as a \<^verbatim>\<open>size_t\<close>, so a negative difference wraps
  to a large bound.
\<close>

definition parse_uid :: "env \<Rightarrow> keyrec \<Rightarrow> string option \<Rightarrow> keyrec" where
  "parse_uid e work keystring =
     (case gpg_strsep keystring '':'' of
        (None, _) \<Rightarrow> work
      | (Some tok, _) \<Rightarrow>
          if length tok = 0 then work
          else (let userid = percent_decode tok;
                    decoded = c_str (utf8_to_native e userid);
                    limit = nat ((opt_screen_columns e - 10) mod 2 ^ 64);
                    decoded' = (if length decoded > limit then take limit decoded else decoded)
                in work \<lparr> uidbuf := uidbuf work @ decoded' @ [CHR 0x0A, CHR 0x09],
                          lines := lines work + 1 \<rparr>))"

text \<open>
  \<^verbatim>\<open>parse_keyrec\<close> with its static \<^verbatim>\<open>work\<close> as an explicit state: from the pointer
  before the call and the argument (\<open>None\<close> is the NULL that flushes) to the returned
  record, if any, and the pointer after the call. Reading \<^verbatim>\<open>work->desc.mode\<close> through
  a released pointer is a fault.
\<close>

definition parse_keyrec ::
    "env \<Rightarrow> keyrec pointer \<Rightarrow> string option \<Rightarrow> fault + (keyrec option \<times> keyrec pointer)" where
  "parse_keyrec e work0 keystring0 =
     (case keystring0 of
        None \<Rightarrow>
          (case work0 of
             NULL \<Rightarrow> Inr (None, NULL)
           | Freed \<Rightarrow> Inl USE_AFTER_FREE
           | Ptr w \<Rightarrow>
               if desc_mode (kr_desc w) = KEYDB_SEARCH_MODE_NONE then Inr (None, Freed)
               else Inr (Some w, NULL))
      | Some line \<Rightarrow>
          (let work = (case work0 of NULL \<Rightarrow> Ptr keyrec_clear | _ \<Rightarrow> work0) in
           case gpg_strsep (Some (trim_trailing_ws line)) '':'' of
             (None, _) \<Rightarrow> Inr (None, work)
           | (Some record, keystring) \<Rightarrow>
               if ascii_strcasecmp ''pub'' record = 0 then
                 (case work of
                    Ptr w \<Rightarrow> Inr (parse_pub e w keystring)
                  | _ \<Rightarrow> Inl USE_AFTER_FREE)
               else if ascii_strcasecmp ''uid'' record = 0 then
                 (case work of
                    Ptr w \<Rightarrow>
                      if desc_mode (kr_desc w) \<noteq> KEYDB_SEARCH_MODE_NONE
                      then Inr (None, Ptr (parse_uid e w keystring))
                      else Inr (None, work)
                  | _ \<Rightarrow> Inl USE_AFTER_FREE)
               else Inr (None, work)))"

section \<open>show_prompt\<close>

text \<open>
  What the program writes: the header line of the prompt with its arguments, literal
  terminal text, a received line echoed by \<^verbatim>\<open>--with-colons\<close>, and a record listed by
  \<^verbatim>\<open>print_keyrec\<close> under its number.
\<close>

datatype printed =
    TTY_KEYS int int int string
  | TTY_TEXT string
  | ES_LINE string
  | ES_KEYREC int keyrec

text \<open>
  The terminal and what the prompt leaves behind: the lines of input not yet read, the
  output so far, the static \<^verbatim>\<open>from\<close> of \<^verbatim>\<open>show_prompt\<close>, and the chunks requested
  by the calls of \<^verbatim>\<open>keyserver_get\<close> made from the prompt.
\<close>

record io =
  answers :: "string list"
  out :: "printed list"
  prompt_from :: int
  requested :: "chunk_result list"

text \<open>
  The loop \<^verbatim>\<open>while ((num = gpg_strsep (&split, " ,")))\<close>. \<open>numarray\<close> holds the
  \<^verbatim>\<open>numidx\<close> entries written so far; \<open>None\<close> is the jump out of the loop when a
  51st number arrives.
\<close>

definition strsep_size :: "string option \<Rightarrow> nat" where
  "strsep_size split = (case split of None \<Rightarrow> 0 | Some s \<Rightarrow> Suc (length s))"

lemma gpg_strsep_shrinks:
  assumes "gpg_strsep split delim = (Some tok, split')"
  shows "strsep_size split' < strsep_size split"
proof (cases split)
  case None
  with assms show ?thesis by simp
next
  case (Some s)
  have "length (dropWhile (\<lambda>c. c \<notin> set delim) s) \<le> length s"
    by (rule length_dropWhile_le)
  with Some assms show ?thesis
    by (auto simp: strsep_size_def split: list.splits)
qed

function select_loop :: "string option \<Rightarrow> int \<Rightarrow> int list \<Rightarrow> int list option" where
  "select_loop split numdesc numarray =
     (case gpg_strsep split '' ,'' of
        (None, _) \<Rightarrow> Some numarray
      | (Some num, split') \<Rightarrow>
          if atoi num \<ge> 1 \<and> atoi num \<le> numdesc then
            (if length numarray \<ge> 50 then None
             else select_loop split' numdesc (numarray @ [atoi num]))
          else select_loop split' numdesc numarray)"
  by pat_completeness auto
termination
proof (relation "measure (\<lambda>(split, numdesc, numarray). strsep_size split)")
  show "wf (measure (\<lambda>(split, numdesc, numarray). strsep_size split))"
    by simp
next
  fix split :: "string option" and numdesc :: int and numarray :: "int list"
    and x y x2
  assume "(x, y) = gpg_strsep split '' ,''" and "x = Some x2"
  then have "strsep_size y < strsep_size split"
    using gpg_strsep_shrinks [of split "'' ,''" x2 y] by simp
  then show "((y, numdesc, numarray @ [atoi x2]), split, numdesc, numarray)
          \<in> measure (\<lambda>(split, numdesc, numarray). strsep_size split)"
    and "((y, numdesc, numarray), split, numdesc, numarray)
          \<in> measure (\<lambda>(split, numdesc, numarray). strsep_size split)"
    by simp_all
qed

declare select_loop.simps [simp del]

text \<open>
  The part of \<^verbatim>\<open>show_prompt\<close> from the label \<^verbatim>\<open>again\<close> on. Each pass reads one line
  with \<^verbatim>\<open>cpr_get_no_help\<close>. Modelled from the spec: \<^verbatim>\<open>cpr_get_no_help\<close> of cpr.c
  hands out the next line of input and, at the end of the input, the control character
  that is treated as quit; that line makes the function return \<^verbatim>\<open>GPG_ERR_CANCELED\<close>,
  which is the first equation. \<open>desc\<close> is the array of the caller; its entry
  \<^verbatim>\<open>numarray[idx] - 1\<close> is read for each selected number.
\<close>

fun show_prompt_again ::
    "env \<Rightarrow> KEYDB_SEARCH_DESC list \<Rightarrow> int \<Rightarrow> string list \<Rightarrow> io \<Rightarrow> fault + (gpg_error_t \<times> io)" where
  "show_prompt_again e desc numdesc [] t =
     Inr (GPG_ERR_CANCELED, t \<lparr> answers := [], out := out t @ [TTY_TEXT (''Q'' @ [CHR 0x0A])] \<rparr>)"
| "show_prompt_again e desc numdesc (answer0 # rest) t =
     (let t1 = (if take 1 answer0 = [CHR 0x04]
                then t \<lparr> out := out t @ [TTY_TEXT (''Q'' @ [CHR 0x0A])] \<rparr> else t);
          answer = (if take 1 answer0 = [CHR 0x04] then CHR ''q'' # drop 1 answer0 else answer0)
      in
      if take 1 answer = ''q'' \<or> take 1 answer = ''Q'' then
        Inr (GPG_ERR_CANCELED, t1 \<lparr> answers := rest \<rparr>)
      else if atoi answer \<ge> 1 \<and> atoi answer \<le> numdesc then
        (case select_loop (Some answer) numdesc [] of
           None \<Rightarrow>
             show_prompt_again e desc numdesc rest
               (t1 \<lparr> out := out t1 @ [TTY_TEXT (''Too many keys selected'' @ [CHR 0x0A])] \<rparr>)
         | Some numarray \<Rightarrow>
             if length numarray = 0 then show_prompt_again e desc numdesc rest t1
             else if \<exists>v \<in> set numarray. \<not> nat (v - 1) < length desc then Inl OUT_OF_BOUNDS
             else (let selarray = map (\<lambda>v. desc ! nat (v - 1)) numarray in
                   case keyserver_get (gpg_dirmngr_ks_get e) selarray of
                     Inl f \<Rightarrow> Inl f
                   | Inr (err, chunks) \<Rightarrow>
                       Inr (err, t1 \<lparr> answers := rest, requested := requested t1 @ chunks \<rparr>)))
      else Inr (GPG_ERR_NO_ERROR, t1 \<lparr> answers := rest \<rparr>))"

definition show_prompt ::
    "env \<Rightarrow> KEYDB_SEARCH_DESC list \<Rightarrow> int \<Rightarrow> int \<Rightarrow> string \<Rightarrow> io \<Rightarrow> fault + (gpg_error_t \<times> io)" where
  "show_prompt e desc numdesc cnt search t =
     (let t1 = (if cnt \<noteq> 0 \<and> opt_command_fd e = - 1
                then t \<lparr> out := out t @ [TTY_KEYS (prompt_from t) numdesc cnt search],
                         prompt_from := numdesc + 1 \<rparr>
                else t)
      in show_prompt_again e desc numdesc (answers t1) t1)"

section \<open>search_line_handler\<close>

text \<open>
  \<^verbatim>\<open>struct search_line_handler_parm_s\<close>. \<open>parm_desc\<close> is the pointer \<^verbatim>\<open>desc\<close>: NULL or
  an array, of which the list holds the entries written so far; the slots above them
  are never read. The flags are the C integers used as truth values.
\<close>

record search_line_handler_parm_s =
  searchstr_disp :: string
  parm_desc :: "KEYDB_SEARCH_DESC list option"
  count :: int
  validcount :: bool
  nkeys :: int
  any_lines :: bool
  numlines :: u32
  eof_seen :: bool
  not_found :: bool

text \<open>The \<^verbatim>\<open>memset (&parm, 0, sizeof parm)\<close> of \<^verbatim>\<open>keyserver_search\<close> and its search string.\<close>

definition parm_clear :: "string \<Rightarrow> search_line_handler_parm_s" where
  "parm_clear search =
     \<lparr> searchstr_disp = search, parm_desc = None, count = 0, validcount = False,
       nkeys = 0, any_lines = False, numlines = 0, eof_seen = False, not_found = False \<rparr>"

definition desc_array :: "search_line_handler_parm_s \<Rightarrow> KEYDB_SEARCH_DESC list" where
  "desc_array parm = (case parm_desc parm of None \<Rightarrow> [] | Some l \<Rightarrow> l)"

text \<open>
  \<^verbatim>\<open>print_keyrec\<close> writes one entry of the listing; its \<^verbatim>\<open>switch\<close> ends in
  \<^verbatim>\<open>BUG ()\<close> for a record without one of the four key modes.
\<close>

definition print_keyrec :: "int \<Rightarrow> keyrec \<Rightarrow> io \<Rightarrow> fault + io" where
  "print_keyrec number kr t =
     (if desc_mode (kr_desc kr) = KEYDB_SEARCH_MODE_SHORT_KID \<or>
         desc_mode (kr_desc kr) = KEYDB_SEARCH_MODE_LONG_KID \<or>
         desc_mode (kr_desc kr) = KEYDB_SEARCH_MODE_FPR16 \<or>
         desc_mode (kr_desc kr) = KEYDB_SEARCH_MODE_FPR20
      then Inr (t \<lparr> out := out t @ [ES_KEYREC number kr] \<rparr>)
      else Inl BUG)"

text \<open>
  The info: branch, taken for the line \<open>line\<close> that starts with \<^verbatim>\<open>info:\<close>: the returned
  error code and the parameters after it.
\<close>

definition info_line ::
    "search_line_handler_parm_s \<Rightarrow> string \<Rightarrow> gpg_error_t \<times> search_line_handler_parm_s" where
  "info_line parm line =
     (let str = Some (drop 5 line);
          (tok, str1) = gpg_strsep str '':'';
          version = (case tok of
                       None \<Rightarrow> 1
                     | Some tk \<Rightarrow> (case sscanf_d tk of None \<Rightarrow> 1 | Some v \<Rightarrow> v))
      in
      if tok \<noteq> None \<and> version \<noteq> 1 then (GPG_ERR_UNSUPPORTED_PROTOCOL, parm)
      else
        (let (tok2, str2) = gpg_strsep str1 '':'';
             parm1 = (case tok2 of
                        None \<Rightarrow> parm
                      | Some tk \<Rightarrow>
                          (case sscanf_d tk of
                             None \<Rightarrow> parm
                           | Some c \<Rightarrow>
                               (let p = parm \<lparr> count := c \<rparr> in
                                if count p = 0 then p \<lparr> not_found := True \<rparr>
                                else if count p < 0 then p \<lparr> count := 10 \<rparr>
                                else p \<lparr> validcount := True \<rparr>)))
         in (GPG_ERR_NO_ERROR, parm1 \<lparr> any_lines := True \<rparr>)))"

text \<open>
  Allocating or enlarging the key array and storing \<^verbatim>\<open>keyrec->desc\<close> at index
  \<^verbatim>\<open>nkeys\<close>. The size asked for is \<^verbatim>\<open>count\<close>, which the server has declared, or
  \<^verbatim>\<open>count + 10\<close>; when the allocation fails the handler returns
  \<^verbatim>\<open>gpg_error_from_syserror ()\<close> with the array and, for \<^verbatim>\<open>xtryrealloc\<close>, the count
  as they were, which is the result with an error code here. The array has \<^verbatim>\<open>count\<close>
  slots, so an index outside of them is a fault.
\<close>

definition save_key ::
    "env \<Rightarrow> search_line_handler_parm_s \<Rightarrow> keyrec \<Rightarrow>
       fault + (gpg_error_t \<times> search_line_handler_parm_s)" where
  "save_key e parm kr =
     (case (case parm_desc parm of
              None \<Rightarrow>
                (let p = (if count parm < 1 then parm \<lparr> count := 10, validcount := False \<rparr>
                          else parm)
                 in if xtrymalloc_desc e (count p)
                    then (GPG_ERR_NO_ERROR, p \<lparr> parm_desc := Some [] \<rparr>)
                    else (GPG_ERR_ENOMEM, p))
            | Some l \<Rightarrow>
                if nkeys parm = count parm then
                  (let newcount = count parm + 10 in
                   if xtrymalloc_desc e newcount
                   then (GPG_ERR_NO_ERROR, parm \<lparr> count := newcount, validcount := False \<rparr>)
                   else (GPG_ERR_ENOMEM, parm))
                else (GPG_ERR_NO_ERROR, parm)) of
        (err, parm1) \<Rightarrow>
          if err \<noteq> GPG_ERR_NO_ERROR then Inr (err, parm1)
          else if nkeys parm1 < 0 \<or> count parm1 \<le> nkeys parm1 then Inl OUT_OF_BOUNDS
          else Inr (GPG_ERR_NO_ERROR,
                    parm1 \<lparr> parm_desc :=
                      Some (take (nat (nkeys parm1)) (desc_array parm1) @ [kr_desc kr]) \<rparr>))"

text \<open>
  The block \<^verbatim>\<open>if (!opt.with_colons)\<close>: the prompt when the screen is full, then the
  listing of the record. An error code other than 0 is the early \<^verbatim>\<open>return err\<close>.
  The line counters are \<^verbatim>\<open>unsigned int\<close>, and \<^verbatim>\<open>opt.screen_lines - 1\<close> is converted
  to that type for the comparison.
\<close>

definition show_key ::
    "env \<Rightarrow> search_line_handler_parm_s \<Rightarrow> keyrec \<Rightarrow> io \<Rightarrow>
       fault + (gpg_error_t \<times> search_line_handler_parm_s \<times> io)" where
  "show_key e parm kr t =
     (if opt_with_colons e then Inr (GPG_ERR_NO_ERROR, parm, t)
      else
        (case (if numlines parm + lines kr > word_of_int (opt_screen_lines e - 1)
               then (case show_prompt e (desc_array parm) (nkeys parm)
                            (if validcount parm then count parm else 0)
                            (searchstr_disp parm) t of
                       Inl f \<Rightarrow> Inl f
                     | Inr (err, t1) \<Rightarrow>
                         if err \<noteq> GPG_ERR_NO_ERROR then Inr (err, parm, t1)
                         else Inr (GPG_ERR_NO_ERROR, parm \<lparr> numlines := 0 \<rparr>, t1))
               else Inr (GPG_ERR_NO_ERROR, parm, t)) of
           Inl f \<Rightarrow> Inl f
         | Inr (err, parm1, t1) \<Rightarrow>
             if err \<noteq> GPG_ERR_NO_ERROR then Inr (err, parm1, t1)
             else (case print_keyrec (nkeys parm1 + 1) kr t1 of
                     Inl f \<Rightarrow> Inl f
                   | Inr t2 \<Rightarrow> Inr (GPG_ERR_NO_ERROR, parm1, t2))))"

definition again_size :: "string option \<Rightarrow> keyrec pointer \<Rightarrow> nat" where
  "again_size line work =
     (case line of
        Some l \<Rightarrow> 2
      | None \<Rightarrow>
          (case work of
             Ptr w \<Rightarrow> if desc_mode (kr_desc w) = KEYDB_SEARCH_MODE_NONE then 0 else 1
           | _ \<Rightarrow> 0))"

lemma parse_keyrec_flush_size:
  assumes "parse_keyrec e work line = Inr (Some kr, work1)"
  shows "again_size None work1 < again_size line work"
proof (cases line)
  case None
  with assms show ?thesis
    by (auto simp: parse_keyrec_def again_size_def split: pointer.splits if_splits)
next
  case (Some l)
  then show ?thesis
    by (simp add: again_size_def split: pointer.splits)
qed

text \<open>
  \<^verbatim>\<open>search_line_handler\<close> from the label \<^verbatim>\<open>again\<close> on, with the static \<^verbatim>\<open>work\<close> of
  \<^verbatim>\<open>parse_keyrec\<close> and the terminal as explicit state. The jump
  \<^verbatim>\<open>if (parm->eof_seen) goto again\<close> is the recursive call; \<^verbatim>\<open>line\<close> is NULL there,
  since the function replaces a line by NULL before the label once \<^verbatim>\<open>eof_seen\<close> is
  set, and \<^verbatim>\<open>eof_seen\<close> is set only for a NULL line.
\<close>

function slh_again ::
    "env \<Rightarrow> search_line_handler_parm_s \<Rightarrow> string option \<Rightarrow> keyrec pointer \<Rightarrow> io \<Rightarrow>
       fault + (gpg_error_t \<times> search_line_handler_parm_s \<times> keyrec pointer \<times> io)" where
  "slh_again e parm line work t =
     (case parse_keyrec e work line of
        Inl f \<Rightarrow> Inl f
      | Inr (keyrec, work1) \<Rightarrow>
          (let parm1 = (if line = None then parm \<lparr> eof_seen := True \<rparr> else parm) in
           case keyrec of
             None \<Rightarrow>
               if line \<noteq> None then Inr (GPG_ERR_NO_ERROR, parm1, work1, t)
               else if nkeys parm1 = 0
               then Inr (GPG_ERR_NO_ERROR, parm1 \<lparr> not_found := True \<rparr>, work1, t)
               else
                 (let parm2 = (if nkeys parm1 \<noteq> count parm1
                               then parm1 \<lparr> validcount := False \<rparr> else parm1) in
                  if \<not> (opt_with_colons e \<and> opt_batch e) then
                    (case show_prompt e (desc_array parm2) (nkeys parm2)
                            (if validcount parm2 then count parm2 else 0)
                            (searchstr_disp parm2) t of
                       Inl f \<Rightarrow> Inl f
                     | Inr (err, t1) \<Rightarrow> Inr (err, parm2, work1, t1))
                  else Inr (GPG_ERR_NO_ERROR, parm2, work1, t))
           | Some kr \<Rightarrow>
               (case save_key e parm1 kr of
                  Inl f \<Rightarrow> Inl f
                | Inr (aerr, parm3) \<Rightarrow>
                    if aerr \<noteq> GPG_ERR_NO_ERROR then Inr (aerr, parm3, work1, t)
                    else
                    (case show_key e parm3 kr t of
                       Inl f \<Rightarrow> Inl f
                     | Inr (err, parm4, t1) \<Rightarrow>
                         if err \<noteq> GPG_ERR_NO_ERROR then Inr (err, parm4, work1, t1)
                         else
                           (let parm5 = parm4 \<lparr> numlines := numlines parm4 + lines kr,
                                                any_lines := True,
                                                nkeys := nkeys parm4 + 1 \<rparr> in
                            if eof_seen parm5 then slh_again e parm5 None work1 t1
                            else Inr (GPG_ERR_NO_ERROR, parm5, work1, t1))))))"
  by pat_completeness auto
termination
proof (relation "measure (\<lambda>(e, parm, line, work, t). again_size line work)")
  show "wf (measure (\<lambda>(e, parm, line, work, t). again_size line work))"
    by simp
next
  fix e :: env and parm :: search_line_handler_parm_s and line :: "string option"
    and work :: "keyrec pointer" and t :: io
    and b x y and kr :: keyrec and parm5 :: search_line_handler_parm_s and t1 :: io
  assume "parse_keyrec e work line = Inr b" and "(x, y) = b" and "x = Some kr"
  then have "parse_keyrec e work line = Inr (Some kr, y)" by simp
  then have "again_size None y < again_size line work"
    by (rule parse_keyrec_flush_size)
  then show "((e, parm5, None, y, t1), e, parm, line, work, t)
          \<in> measure (\<lambda>(e, parm, line, work, t). again_size line work)"
    by simp
qed

declare slh_again.simps [simp del]

text \<open>
  \<^verbatim>\<open>search_line_handler\<close>: \<open>line = None\<close> is the NULL that signals EOF. The result is
  the returned error code with the parameters, the parser's \<^verbatim>\<open>work\<close> and the terminal
  after the call.
\<close>

definition search_line_handler ::
    "env \<Rightarrow> search_line_handler_parm_s \<Rightarrow> int \<Rightarrow> string option \<Rightarrow> keyrec pointer \<Rightarrow> io \<Rightarrow>
       fault + (gpg_error_t \<times> search_line_handler_parm_s \<times> keyrec pointer \<times> io)" where
  "search_line_handler e parm special line0 work t =
     (if special = 1 then Inr (GPG_ERR_NO_ERROR, parm, work, t)
      else if special \<noteq> 0 then Inr (GPG_ERR_NO_ERROR, parm, work, t)
      else
        (let line = (if eof_seen parm \<and> line0 \<noteq> None then None else line0) in
         case line of
           None \<Rightarrow> slh_again e parm None work t
         | Some l \<Rightarrow>
             (let t1 = (if opt_with_colons e then t \<lparr> out := out t @ [ES_LINE l] \<rparr> else t) in
              if \<not> any_lines parm \<and> ascii_strncasecmp ''info:'' l 5 = 0 then
                (case info_line parm l of (err, parm1) \<Rightarrow> Inr (err, parm1, work, t1))
              else slh_again e parm (Some l) work t1)))"

section \<open>Vocabulary of the specification\<close>

text \<open>
  The 64-bit key id of which \<^verbatim>\<open>kid[0]\<close> is the high and \<^verbatim>\<open>kid[1]\<close> the low half.
\<close>

definition keyid64 :: "u32 \<Rightarrow> u32 \<Rightarrow> 64 word" where
  "keyid64 hi lo = push_bit 32 (ucast hi) OR ucast lo"

text \<open>
  The tiered comparison in the words of the specification: exact 20-byte and 16-byte
  fingerprints, the full 64-bit key id, the low 32 bits of the key id, and no check for
  any other mode.
\<close>

definition tiered_match :: "KEYDB_SEARCH_DESC \<Rightarrow> kbnode \<Rightarrow> bool" where
  "tiered_match d pk =
     (case desc_mode d of
        KEYDB_SEARCH_MODE_FPR20 \<Rightarrow> length (pk_fpr pk) = 20 \<and> pk_fpr pk = take 20 (u_fpr d)
      | KEYDB_SEARCH_MODE_FPR16 \<Rightarrow> length (pk_fpr pk) = 16 \<and> pk_fpr pk = take 16 (u_fpr d)
      | KEYDB_SEARCH_MODE_LONG_KID \<Rightarrow>
          keyid64 (pk_keyid0 pk) (pk_keyid1 pk) = keyid64 (u_kid0 d) (u_kid1 d)
      | KEYDB_SEARCH_MODE_SHORT_KID \<Rightarrow>
          (ucast (keyid64 (pk_keyid0 pk) (pk_keyid1 pk)) :: u32) = u_kid1 d
      | _ \<Rightarrow> True)"

text \<open>
  The modes that \<^verbatim>\<open>keyserver_get_chunk\<close> handles; any other mode runs into \<^verbatim>\<open>BUG ()\<close>.
\<close>

definition planner_mode :: "KEYDB_SEARCH_DESC \<Rightarrow> bool" where
  "planner_mode d \<longleftrightarrow>
     desc_mode d \<in> {KEYDB_SEARCH_MODE_FPR20, KEYDB_SEARCH_MODE_FPR16, KEYDB_SEARCH_MODE_LONG_KID,
                    KEYDB_SEARCH_MODE_SHORT_KID, KEYDB_SEARCH_MODE_EXACT, KEYDB_SEARCH_MODE_NONE}"

text \<open>
  The estimate \<^verbatim>\<open>n\<close> that the planning loop adds to \<^verbatim>\<open>linelen\<close> for a descriptor, and
  the patterns it writes for it, read off the branches of the loop.
\<close>

definition planned_cost :: "KEYDB_SEARCH_DESC \<Rightarrow> nat" where
  "planned_cost d =
     (case desc_mode d of
        KEYDB_SEARCH_MODE_FPR20 \<Rightarrow> 43
      | KEYDB_SEARCH_MODE_FPR16 \<Rightarrow> 43
      | KEYDB_SEARCH_MODE_LONG_KID \<Rightarrow> 19
      | KEYDB_SEARCH_MODE_SHORT_KID \<Rightarrow> 11
      | KEYDB_SEARCH_MODE_EXACT \<Rightarrow> 2 + length (u_name d)
      | _ \<Rightarrow> 0)"

definition planned_pattern :: "KEYDB_SEARCH_DESC \<Rightarrow> string list" where
  "planned_pattern d =
     (case desc_mode d of
        KEYDB_SEARCH_MODE_FPR20 \<Rightarrow> [''0x'' @ bin2hex (take 20 (u_fpr d))]
      | KEYDB_SEARCH_MODE_FPR16 \<Rightarrow> [''0x'' @ bin2hex (take 16 (u_fpr d))]
      | KEYDB_SEARCH_MODE_LONG_KID \<Rightarrow> [''0x'' @ hex08 (u_kid0 d) @ hex08 (u_kid1 d)]
      | KEYDB_SEARCH_MODE_SHORT_KID \<Rightarrow> [''0x'' @ hex08 (u_kid1 d)]
      | KEYDB_SEARCH_MODE_EXACT \<Rightarrow> [''='' @ u_name d]
      | _ \<Rightarrow> [])"

text \<open>The cost of a descriptor as the specification states it.\<close>

definition claimed_cost :: "KEYDB_SEARCH_DESC \<Rightarrow> nat" where
  "claimed_cost d =
     (case desc_mode d of
        KEYDB_SEARCH_MODE_FPR20 \<Rightarrow> 2 + 2 * 20
      | KEYDB_SEARCH_MODE_FPR16 \<Rightarrow> 2 + 2 * 16
      | KEYDB_SEARCH_MODE_LONG_KID \<Rightarrow> 18
      | KEYDB_SEARCH_MODE_SHORT_KID \<Rightarrow> 10
      | KEYDB_SEARCH_MODE_EXACT \<Rightarrow> 1 + length (u_name d)
      | _ \<Rightarrow> 0)"

text \<open>
  A sequence of calls of \<^verbatim>\<open>parse_keyrec\<close>, each on the \<^verbatim>\<open>work\<close> the call before has
  left: the values returned, in order, and the final \<^verbatim>\<open>work\<close>.
\<close>

fun feed_lines ::
    "env \<Rightarrow> keyrec pointer \<Rightarrow> string option list \<Rightarrow> fault + (keyrec option list \<times> keyrec pointer)" where
  "feed_lines e work [] = Inr ([], work)"
| "feed_lines e work (l # ls) =
     (case parse_keyrec e work l of
        Inl f \<Rightarrow> Inl f
      | Inr (r, work1) \<Rightarrow>
          (case feed_lines e work1 ls of
             Inl f \<Rightarrow> Inl f
           | Inr (rs, work2) \<Rightarrow> Inr (r # rs, work2)))"

text \<open>
  A line is a pub line when its first field, as \<^verbatim>\<open>parse_keyrec\<close> cuts it off, is
  \<^verbatim>\<open>pub\<close> in any case; its descriptor token is the field after that.
\<close>

definition pub_line :: "string \<Rightarrow> bool" where
  "pub_line l =
     (case gpg_strsep (Some (trim_trailing_ws l)) '':'' of
        (Some record, _) \<Rightarrow> ascii_strcasecmp ''pub'' record = 0
      | _ \<Rightarrow> False)"

definition pub_token :: "string \<Rightarrow> string option" where
  "pub_token l =
     (case gpg_strsep (Some (trim_trailing_ws l)) '':'' of
        (_, keystring) \<Rightarrow> fst (gpg_strsep keystring '':''))"

text \<open>
  The calls of \<^verbatim>\<open>search_line_handler\<close> for a stream of data lines (\<^verbatim>\<open>special\<close> is 0),
  up to the first call that returns an error code.
\<close>

fun feed_handler ::
    "env \<Rightarrow> search_line_handler_parm_s \<Rightarrow> keyrec pointer \<Rightarrow> io \<Rightarrow> string option list \<Rightarrow>
       fault + (gpg_error_t \<times> search_line_handler_parm_s \<times> keyrec pointer \<times> io)" where
  "feed_handler e parm work t [] = Inr (GPG_ERR_NO_ERROR, parm, work, t)"
| "feed_handler e parm work t (l # ls) =
     (case search_line_handler e parm 0 l work t of
        Inl f \<Rightarrow> Inl f
      | Inr (err, parm1, work1, t1) \<Rightarrow>
          if err \<noteq> GPG_ERR_NO_ERROR then Inr (err, parm1, work1, t1)
          else feed_handler e parm1 work1 t1 ls)"


text \<open>
  Splitting the input of the prompt at every blank and comma, and the numbers between 1
  and \<open>numdesc\<close> among the \<^verbatim>\<open>atoi\<close> values of the pieces.
\<close>

fun split_on :: "string \<Rightarrow> string \<Rightarrow> string list" where
  "split_on delim [] = [[]]"
| "split_on delim (c # cs) =
     (if c \<in> set delim then [] # split_on delim cs
      else (case split_on delim cs of
              [] \<Rightarrow> [[c]]
            | tok # toks \<Rightarrow> (c # tok) # toks))"

definition selected :: "int \<Rightarrow> string \<Rightarrow> int list" where
  "selected numdesc answer =
     filter (\<lambda>v. 1 \<le> v \<and> v \<le> numdesc) (map atoi (split_on '' ,'' answer))"

definition tokens_left :: "string option \<Rightarrow> string list" where
  "tokens_left split = (case split of None \<Rightarrow> [] | Some s \<Rightarrow> split_on '' ,'' s)"

text \<open>Sample data for the concrete instances below.\<close>

definition sample_desc :: "search_mode \<Rightarrow> u32 \<Rightarrow> u32 \<Rightarrow> KEYDB_SEARCH_DESC" where
  "sample_desc m hi lo = \<lparr> desc_mode = m, u_kid0 = hi, u_kid1 = lo, u_fpr = [], u_name = [] \<rparr>"

definition sample_node :: "pkttype_t \<Rightarrow> u32 \<Rightarrow> u32 \<Rightarrow> kbnode" where
  "sample_node t hi lo = \<lparr> pkttype = t, pk_fpr = replicate 20 0, pk_keyid0 = hi, pk_keyid1 = lo \<rparr>"

definition sample_name :: "string \<Rightarrow> KEYDB_SEARCH_DESC" where
  "sample_name n = \<lparr> desc_mode = KEYDB_SEARCH_MODE_EXACT, u_kid0 = 0, u_kid1 = 0,
                     u_fpr = [], u_name = n \<rparr>"

text \<open>A transport that answers every request with success and no key.\<close>

definition sample_ks :: ks_get_t where
  "sample_ks pattern = (GPG_ERR_NO_ERROR, [])"

text \<open>
  A sample environment: \<^verbatim>\<open>classify_user_id\<close> takes the 16 hex digits of the example for
  a long key id and anything else for a substring search, the display character set is
  that of the input, the screen has 24 lines of 80 columns, and there is memory for a
  key array of up to a million descriptors.
\<close>

definition sample_env :: env where
  "sample_env =
     \<lparr> classify_user_id =
         (\<lambda>tok. if tok = ''1234567812345678''
                 then (GPG_ERR_NO_ERROR, sample_desc KEYDB_SEARCH_MODE_LONG_KID 0x12345678 0x12345678)
                 else (GPG_ERR_NO_ERROR, (sample_name tok) \<lparr> desc_mode := KEYDB_SEARCH_MODE_SUBSTR \<rparr>)),
       utf8_to_native = (\<lambda>s. s),
       make_timestamp = 1500000000,
       opt_screen_columns = 80,
       opt_screen_lines = 24,
       opt_with_colons = False,
       opt_batch = False,
       opt_command_fd = - 1,
       gpg_dirmngr_ks_get = sample_ks,
       xtrymalloc_desc = (\<lambda>n. n \<le> 1000000) \<rparr>"

definition sample_io :: io where
  "sample_io = \<lparr> answers = [], out = [], prompt_from = 1, requested = [] \<rparr>"

definition sample_keys :: "KEYDB_SEARCH_DESC list" where
  "sample_keys = [sample_desc KEYDB_SEARCH_MODE_LONG_KID 0 1,
                  sample_desc KEYDB_SEARCH_MODE_LONG_KID 0 2,
                  sample_desc KEYDB_SEARCH_MODE_LONG_KID 0 3]"

section \<open>Properties of the import screener\<close>

lemma keyid64_low: "(ucast (keyid64 hi lo) :: u32) = lo"
  unfolding keyid64_def
  by (rule bit_word_eqI) (auto simp: bit_simps)

lemma keyid64_high: "(ucast (drop_bit 32 (keyid64 hi lo)) :: u32) = hi"
  unfolding keyid64_def
  by (rule bit_word_eqI) (auto simp: bit_simps dest: bit_imp_le_length)

lemma keyid64_eq_iff: "keyid64 a b = keyid64 c d \<longleftrightarrow> a = c \<and> b = d"
  by (metis keyid64_low keyid64_high)

lemma screener_desc_loop_step:
  "screener_desc_loop pk (d # ds) \<longleftrightarrow> tiered_match d pk \<or> screener_desc_loop pk ds"
  by (cases "desc_mode d")
     (auto simp: tiered_match_def keyid64_eq_iff keyid64_low)

lemma screener_desc_loop_iff:
  "screener_desc_loop pk desc \<longleftrightarrow> (\<exists>d \<in> set desc. tiered_match d pk)"
  by (induction desc) (simp_all add: screener_desc_loop_step del: screener_desc_loop.simps(2))

lemma screener_node_loop_iff:
  "screener_node_loop keyblock desc = GPG_ERR_NO_ERROR \<longleftrightarrow>
     (\<exists>pk \<in> set keyblock. (pkttype pk = PKT_PUBLIC_KEY \<or> pkttype pk = PKT_PUBLIC_SUBKEY) \<and>
        screener_desc_loop pk desc)"
  by (induction keyblock) auto

lemma find_kbnode_None:
  "find_kbnode keyblock t = None \<longleftrightarrow> (\<forall>node \<in> set keyblock. pkttype node \<noteq> t)"
  by (auto simp: find_kbnode_def find_None_iff)

text \<open>
  C1. A keyblock that contains a secret-key packet is rejected whatever the requested
  descriptors are, and so also for the empty array, for which a keyblock without a
  secret-key packet is accepted.
\<close>

theorem screener_rejects_secret_key:
  assumes "node \<in> set keyblock" and "pkttype node = PKT_SECRET_KEY"
  shows "keyserver_retrieval_screener keyblock desc = GPG_ERR_GENERAL \<and>
         keyserver_retrieval_screener keyblock [] = GPG_ERR_GENERAL \<and>
         ((\<forall>n \<in> set other. pkttype n \<noteq> PKT_SECRET_KEY) \<longrightarrow>
            keyserver_retrieval_screener other [] = GPG_ERR_NO_ERROR)"
  using assms by (auto simp: keyserver_retrieval_screener_def find_kbnode_None)

theorem screener_rejects_secret_key_witness:
  "pkttype (sample_node PKT_SECRET_KEY 1 2) = PKT_SECRET_KEY \<and>
   keyserver_retrieval_screener [sample_node PKT_SECRET_KEY 1 2]
     [sample_desc KEYDB_SEARCH_MODE_LONG_KID 1 2] = GPG_ERR_GENERAL \<and>
   keyserver_retrieval_screener [sample_node PKT_SECRET_KEY 1 2] [] = GPG_ERR_GENERAL \<and>
   keyserver_retrieval_screener [sample_node PKT_PUBLIC_KEY 1 2] [] = GPG_ERR_NO_ERROR"
proof -
  have h1: "sample_node PKT_SECRET_KEY 1 2 \<in> set [sample_node PKT_SECRET_KEY 1 2]"
    by simp
  have h2: "pkttype (sample_node PKT_SECRET_KEY 1 2) = PKT_SECRET_KEY"
    by (simp add: sample_node_def)
  have h3: "\<forall>n \<in> set [sample_node PKT_PUBLIC_KEY 1 2]. pkttype n \<noteq> PKT_SECRET_KEY"
    by (simp add: sample_node_def)
  show ?thesis
    using h1 h2 h3
      screener_rejects_secret_key [OF h1 h2,
        of "[sample_desc KEYDB_SEARCH_MODE_LONG_KID 1 2]" "[sample_node PKT_PUBLIC_KEY 1 2]"]
    by blast
qed

text \<open>
  C2. For a non-empty array of requested descriptors and a keyblock without a secret-key
  packet, the screener accepts exactly when some public key or subkey packet matches
  some descriptor under the tiered comparison.
\<close>

theorem screener_accepts_iff_match:
  assumes "desc \<noteq> []" and "\<forall>node \<in> set keyblock. pkttype node \<noteq> PKT_SECRET_KEY"
  shows "keyserver_retrieval_screener keyblock desc = GPG_ERR_NO_ERROR \<longleftrightarrow>
     (\<exists>pk \<in> set keyblock. (pkttype pk = PKT_PUBLIC_KEY \<or> pkttype pk = PKT_PUBLIC_SUBKEY) \<and>
        (\<exists>d \<in> set desc. tiered_match d pk))"
  using assms
  by (simp add: keyserver_retrieval_screener_def find_kbnode_None screener_node_loop_iff
        screener_desc_loop_iff)

text \<open>
  The instance of the specification: a key with the id 0xAAAA000012345678 passes a
  request for the short id 0x12345678, and fails a request for the long id
  0xBBBB000012345678.
\<close>

theorem screener_accepts_iff_match_witness:
  "keyserver_retrieval_screener [sample_node PKT_PUBLIC_KEY 0xAAAA0000 0x12345678]
     [sample_desc KEYDB_SEARCH_MODE_SHORT_KID 0 0x12345678] = GPG_ERR_NO_ERROR \<and>
   tiered_match (sample_desc KEYDB_SEARCH_MODE_SHORT_KID 0 0x12345678)
     (sample_node PKT_PUBLIC_KEY 0xAAAA0000 0x12345678) \<and>
   keyserver_retrieval_screener [sample_node PKT_PUBLIC_KEY 0xAAAA0000 0x12345678]
     [sample_desc KEYDB_SEARCH_MODE_LONG_KID 0xBBBB0000 0x12345678] = GPG_ERR_GENERAL"
proof -
  let ?kb = "[sample_node PKT_PUBLIC_KEY 0xAAAA0000 0x12345678]"
  let ?short = "[sample_desc KEYDB_SEARCH_MODE_SHORT_KID 0 0x12345678]"
  let ?long = "[sample_desc KEYDB_SEARCH_MODE_LONG_KID 0xBBBB0000 0x12345678]"
  have h1: "?short \<noteq> []" by simp
  have h2: "\<forall>node \<in> set ?kb. pkttype node \<noteq> PKT_SECRET_KEY"
    by (simp add: sample_node_def)
  have m: "\<exists>pk \<in> set ?kb. (pkttype pk = PKT_PUBLIC_KEY \<or> pkttype pk = PKT_PUBLIC_SUBKEY) \<and>
      (\<exists>d \<in> set ?short. tiered_match d pk)"
    by (simp add: sample_node_def sample_desc_def tiered_match_def keyid64_low)
  have l: "keyserver_retrieval_screener ?kb ?long = GPG_ERR_GENERAL"
    by (simp add: keyserver_retrieval_screener_def find_kbnode_def sample_node_def
          sample_desc_def)
  show ?thesis
    using m l screener_accepts_iff_match [OF h1 h2] by simp
qed

section \<open>Properties of the batch planner\<close>

lemma chunk_loop_step:
  assumes "planner_mode d"
  shows "chunk_loop (d # ds) idx pattern linelen =
     (if desc_mode d \<noteq> KEYDB_SEARCH_MODE_NONE \<and> idx \<noteq> 0 \<and>
         linelen + planned_cost d > MAX_KS_GET_LINELEN
      then Inr (pattern, idx)
      else chunk_loop ds (idx + 1) (pattern @ planned_pattern d) (linelen + planned_cost d))"
  using assms
  by (auto simp: planner_mode_def planned_cost_def planned_pattern_def Let_def)

lemma chunk_loop_total:
  assumes "\<forall>d \<in> set ds. planner_mode d"
  shows "\<exists>pattern' used. chunk_loop ds idx pattern linelen = Inr (pattern', used)"
  using assms
proof (induction ds arbitrary: idx pattern linelen)
  case Nil
  then show ?case by simp
next
  case (Cons d ds)
  then have "planner_mode d" and "\<forall>d \<in> set ds. planner_mode d" by simp_all
  then show ?case
    using Cons.IH by (simp add: chunk_loop_step del: chunk_loop.simps)
qed

lemma chunk_loop_batch:
  assumes "chunk_loop ds idx pattern linelen = Inr (pattern', used)"
    and "\<forall>d \<in> set ds. planner_mode d"
  shows "\<exists>taken rest. ds = taken @ rest \<and> used = idx + length taken \<and>
           pattern' = pattern @ concat (map planned_pattern taken) \<and>
           (\<forall>ys z zs. taken = ys @ z # zs \<longrightarrow> (idx \<noteq> 0 \<or> ys \<noteq> []) \<longrightarrow>
               desc_mode z \<noteq> KEYDB_SEARCH_MODE_NONE \<longrightarrow>
               linelen + sum_list (map planned_cost (ys @ [z])) \<le> MAX_KS_GET_LINELEN) \<and>
           (\<forall>z zs. rest = z # zs \<longrightarrow>
               (idx \<noteq> 0 \<or> taken \<noteq> []) \<and> desc_mode z \<noteq> KEYDB_SEARCH_MODE_NONE \<and>
               linelen + sum_list (map planned_cost (taken @ [z])) > MAX_KS_GET_LINELEN)"
  using assms
proof (induction ds arbitrary: idx pattern linelen)
  case Nil
  then show ?case by simp
next
  case (Cons d ds)
  have d: "planner_mode d" and ds: "\<forall>d \<in> set ds. planner_mode d"
    using Cons.prems(2) by simp_all
  show ?case
  proof (cases "desc_mode d \<noteq> KEYDB_SEARCH_MODE_NONE \<and> idx \<noteq> 0 \<and>
         linelen + planned_cost d > MAX_KS_GET_LINELEN")
    case True
    with Cons.prems(1) d have "pattern' = pattern" and "used = idx"
      by (simp_all add: chunk_loop_step del: chunk_loop.simps)
    with True show ?thesis
      by (intro exI [of _ "[]", OF exI [of _ "d # ds"]]) simp
  next
    case False
    with Cons.prems(1) d
    have "chunk_loop ds (idx + 1) (pattern @ planned_pattern d) (linelen + planned_cost d)
            = Inr (pattern', used)"
      by (auto simp add: chunk_loop_step simp del: chunk_loop.simps split: if_splits)
    from Cons.IH [OF this ds] obtain taken rest where
      split: "ds = taken @ rest" and used: "used = idx + 1 + length taken"
      and pat: "pattern' = (pattern @ planned_pattern d) @ concat (map planned_pattern taken)"
      and fits: "\<And>ys z zs. taken = ys @ z # zs \<Longrightarrow>
               desc_mode z \<noteq> KEYDB_SEARCH_MODE_NONE \<Longrightarrow>
               linelen + planned_cost d + sum_list (map planned_cost (ys @ [z])) \<le> MAX_KS_GET_LINELEN"
      and closes: "\<And>z zs. rest = z # zs \<Longrightarrow>
               desc_mode z \<noteq> KEYDB_SEARCH_MODE_NONE \<and>
               linelen + planned_cost d + sum_list (map planned_cost (taken @ [z])) > MAX_KS_GET_LINELEN"
      by auto
    have fits': "linelen + sum_list (map planned_cost (ys @ [z])) \<le> MAX_KS_GET_LINELEN"
      if "d # taken = ys @ z # zs" and "idx \<noteq> 0 \<or> ys \<noteq> []"
        and "desc_mode z \<noteq> KEYDB_SEARCH_MODE_NONE" for ys z zs
    proof (cases ys)
      case Nil
      with that False show ?thesis by auto
    next
      case (Cons y ys')
      with that(1) have "y = d" and "taken = ys' @ z # zs" by simp_all
      with fits [of ys' z zs] that(3) Cons show ?thesis by simp
    qed
    show ?thesis
    proof (rule exI [of _ "d # taken"], rule exI [of _ rest], intro conjI allI impI)
      show "d # ds = (d # taken) @ rest" using split by simp
      show "used = idx + length (d # taken)" using used by simp
      show "pattern' = pattern @ concat (map planned_pattern (d # taken))"
        using pat by simp
      show "linelen + sum_list (map planned_cost (ys @ [z])) \<le> MAX_KS_GET_LINELEN"
        if "d # taken = ys @ z # zs" and "idx \<noteq> 0 \<or> ys \<noteq> []"
          and "desc_mode z \<noteq> KEYDB_SEARCH_MODE_NONE" for ys z zs
        using that by (rule fits')
      show "idx \<noteq> 0 \<or> d # taken \<noteq> []" for z zs by simp
      show "desc_mode z \<noteq> KEYDB_SEARCH_MODE_NONE" if "rest = z # zs" for z zs
        using closes [OF that] by simp
      show "linelen + sum_list (map planned_cost ((d # taken) @ [z])) > MAX_KS_GET_LINELEN"
        if "rest = z # zs" for z zs
        using closes [OF that] by simp
    qed
  qed
qed

lemma keyserver_get_chunk_result:
  assumes "\<forall>d \<in> set desc. planner_mode d"
  shows "\<exists>c. keyserver_get_chunk ks desc = Inr c \<and>
    r_ndesc_used c \<le> length desc \<and>
    chunk_err c = fst (ks (chunk_pattern c)) \<and>
    chunk_loop desc 0 [] 17 = Inr (chunk_pattern c, r_ndesc_used c)"
proof -
  from chunk_loop_total [OF assms] obtain pattern used
    where loop: "chunk_loop desc 0 [] 17 = Inr (pattern, used)" by blast
  from chunk_loop_idx [OF loop] have "used \<le> length desc" by simp
  with loop show ?thesis
    by (cases "ks pattern") (simp add: keyserver_get_chunk_def)
qed








text \<open>
  C4, as the specification states it, does not hold: it puts the cost of a long key id
  at 18, so that 51 of them fit under the ceiling (17 + 51 * 18 = 935), while the
  planner closes the chunk after 49.
\<close>

theorem planner_cost_counterexample:
  "17 + sum_list (map claimed_cost (replicate 51 (sample_desc KEYDB_SEARCH_MODE_LONG_KID 1 2)))
     \<le> MAX_KS_GET_LINELEN \<and>
   map_sum id snd (chunk_loop (replicate 51 (sample_desc KEYDB_SEARCH_MODE_LONG_KID 1 2)) 0 [] 17)
     = Inr 49"
  by code_simp

text \<open>
  C4, amended. The planner starts from 17 and charges 43 for either kind of fingerprint,
  19 for a long key id, 11 for a short key id and 2 plus the length of the name for an
  exact name (each is the length of the pattern and one more); a descriptor of mode NONE
  is consumed without cost or pattern. The chunk is the longest prefix \<open>taken\<close> of the
  descriptors such that every descriptor other than the first of the array, unless of
  mode NONE, keeps the sum within 950; it is closed at the first descriptor that is not
  at index 0, is not of mode NONE, and would lift the sum above 950. The patterns sent
  are those of the descriptors taken, in order.
\<close>

theorem planner_batch_costs:
  assumes "\<forall>d \<in> set desc. planner_mode d"
  shows "\<exists>c taken rest.
           keyserver_get_chunk ks desc = Inr c \<and> desc = taken @ rest \<and>
           r_ndesc_used c = length taken \<and>
           chunk_pattern c = concat (map planned_pattern taken) \<and>
           (\<forall>ys z zs. taken = ys @ z # zs \<longrightarrow> ys \<noteq> [] \<longrightarrow>
               desc_mode z \<noteq> KEYDB_SEARCH_MODE_NONE \<longrightarrow>
               17 + sum_list (map planned_cost (ys @ [z])) \<le> MAX_KS_GET_LINELEN) \<and>
           (\<forall>z zs. rest = z # zs \<longrightarrow>
               taken \<noteq> [] \<and> desc_mode z \<noteq> KEYDB_SEARCH_MODE_NONE \<and>
               17 + sum_list (map planned_cost (taken @ [z])) > MAX_KS_GET_LINELEN)"
proof -
  from keyserver_get_chunk_result [OF assms, of ks] obtain c
    where c: "keyserver_get_chunk ks desc = Inr c"
      and loop: "chunk_loop desc 0 [] 17 = Inr (chunk_pattern c, r_ndesc_used c)"
    by blast
  from chunk_loop_batch [OF loop assms] c show ?thesis
    by simp
qed

theorem planner_batch_costs_witness:
  "\<exists>c taken rest.
     keyserver_get_chunk sample_ks
       [sample_desc KEYDB_SEARCH_MODE_SHORT_KID 0 1, sample_name (replicate 960 CHR ''a'')]
       = Inr c \<and>
     [sample_desc KEYDB_SEARCH_MODE_SHORT_KID 0 1, sample_name (replicate 960 CHR ''a'')]
       = taken @ rest \<and>
     r_ndesc_used c = length taken \<and>
     chunk_pattern c = concat (map planned_pattern taken)"
proof -
  have h: "\<forall>d \<in> set [sample_desc KEYDB_SEARCH_MODE_SHORT_KID 0 1,
                       sample_name (replicate 960 CHR ''a'')]. planner_mode d"
    by (simp add: planner_mode_def sample_desc_def sample_name_def)
  from planner_batch_costs [OF h, of sample_ks] show ?thesis
    by blast
qed

section \<open>Properties of the record parser\<close>

lemma gpg_strsep_Some: "\<exists>tok rest. gpg_strsep (Some s) delim = (Some tok, rest)"
  by (simp split: list.splits)

lemma parse_pub_line:
  "parse_keyrec e NULL (Some ''pub:1234567812345678:1:2048:1000000000:0:'') =
     Inr (parse_pub e keyrec_clear (Some ''1234567812345678:1:2048:1000000000:0:''))"
  by (simp add: parse_keyrec_def trim_trailing_ws_def ascii_strcasecmp_def ascii_toupper_def)

lemma pub_fields_sample:
  "pub_fields e w (Some ''1:2048:1000000000:0:'') =
     w \<lparr> lines := lines w + 1, kr_type := 1, kr_size := 2048, createtime := 1000000000,
         expiretime := 0, flags := flags_loop (flags w) [] \<rparr>"
  by (simp add: pub_fields_def atoi_def strtol10_def isspace_def isdigit_def Let_def)

lemma percent_decode_sample: "percent_decode ''%41%42'' = ''AB''"
  by code_simp

text \<open>
  C5, as the specification states it, does not hold: after the pub line, the uid line
  and the flush, the display buffer of the one record returned is not the text AB but
  AB followed by a line feed and a tab, which \<^verbatim>\<open>parse_keyrec\<close> writes after every uid.
\<close>

theorem display_text_counterexample:
  "map_sum id (map (map_option uidbuf) \<circ> fst)
     (feed_lines sample_env NULL
        [Some ''pub:1234567812345678:1:2048:1000000000:0:'', Some ''uid:%41%42:'', None]) =
   Inr [None, None, Some (''AB'' @ [CHR 0x0A, CHR 0x09])] \<and>
   ''AB'' @ [CHR 0x0A, CHR 0x09] \<noteq> ''AB''"
  by code_simp

text \<open>
  C5, amended. Where \<^verbatim>\<open>classify_user_id\<close> takes the token for the long key id
  0x1234567812345678, \<^verbatim>\<open>utf8_to_native\<close> leaves AB as it is and the screen is at least
  12 columns wide, the two lines return no record and the flush returns the one record:
  that key id, type 1, size 2048, creation time 1000000000, no expiration time, no flag,
  two display lines, and the display buffer AB followed by a line feed and a tab.
\<close>

theorem parse_keyrec_round_trip:
  assumes "classify_user_id e ''1234567812345678'' = (GPG_ERR_NO_ERROR, d)"
    and "desc_mode d = KEYDB_SEARCH_MODE_LONG_KID"
    and "u_kid0 d = 0x12345678" and "u_kid1 d = 0x12345678"
    and "utf8_to_native e ''AB'' = ''AB''"
    and "2 \<le> (opt_screen_columns e - 10) mod 2 ^ 64"
  shows "feed_lines e NULL
           [Some ''pub:1234567812345678:1:2048:1000000000:0:'', Some ''uid:%41%42:'', None] =
         Inr ([None, None,
               Some (keyrec_clear \<lparr> kr_desc := d, createtime := 1000000000, kr_size := 2048,
                                    kr_type := 1, uidbuf := ''AB'' @ [CHR 0x0A, CHR 0x09],
                                    lines := 2 \<rparr>)], NULL) \<and>
         keyid64 (u_kid0 d) (u_kid1 d) = 0x1234567812345678"
proof -
  let ?w1 = "keyrec_clear \<lparr> kr_desc := d, createtime := 1000000000, kr_size := 2048,
                             kr_type := 1, lines := 1 \<rparr>"
  let ?w2 = "?w1 \<lparr> uidbuf := ''AB'' @ [CHR 0x0A, CHR 0x09], lines := 2 \<rparr>"
  have pub: "parse_keyrec e NULL (Some ''pub:1234567812345678:1:2048:1000000000:0:'') =
      Inr (None, Ptr ?w1)"
    using assms(1,2)
    by (simp add: parse_pub_line parse_pub_def pub_fields_sample)
       (simp add: keyrec_clear_def)
  have live: "desc_mode (kr_desc ?w1) \<noteq> KEYDB_SEARCH_MODE_NONE"
    using assms(2) by simp
  have uid: "parse_keyrec e (Ptr ?w1) (Some ''uid:%41%42:'') = Inr (None, Ptr ?w2)"
    using assms(2,5,6)
    by (simp add: parse_keyrec_def trim_trailing_ws_def ascii_strcasecmp_def ascii_toupper_def
          parse_uid_def percent_decode_sample c_str_def Let_def keyrec_clear_def
          del: percent_decode.simps)
  have flush: "parse_keyrec e (Ptr ?w2) None = Inr (Some ?w2, NULL)"
    using assms(2) by (simp add: parse_keyrec_def)
  have "keyid64 (u_kid0 d) (u_kid1 d) = 0x1234567812345678"
    using assms(3,4) by (simp add: keyid64_def)
  with pub uid flush show ?thesis
    by (simp add: keyrec_clear_def)
qed


theorem parse_keyrec_round_trip_witness:
  "feed_lines sample_env NULL
     [Some ''pub:1234567812345678:1:2048:1000000000:0:'', Some ''uid:%41%42:'', None] =
   Inr ([None, None,
         Some (keyrec_clear \<lparr> kr_desc := sample_desc KEYDB_SEARCH_MODE_LONG_KID 0x12345678 0x12345678,
                              createtime := 1000000000, kr_size := 2048,
                              kr_type := 1, uidbuf := ''AB'' @ [CHR 0x0A, CHR 0x09],
                              lines := 2 \<rparr>)], NULL)"
  using parse_keyrec_round_trip
          [of sample_env "sample_desc KEYDB_SEARCH_MODE_LONG_KID 0x12345678 0x12345678"]
  by (simp add: sample_env_def sample_desc_def)

lemma parse_keyrec_other_line:
  assumes "\<not> pub_line l" and "desc_mode (kr_desc w) = KEYDB_SEARCH_MODE_NONE"
  shows "parse_keyrec e (Ptr w) (Some l) = Inr (None, Ptr w)"
proof -
  obtain tag keystring
    where sep: "gpg_strsep (Some (trim_trailing_ws l)) '':'' = (Some tag, keystring)"
    using gpg_strsep_Some by blast
  with assms(1) have "ascii_strcasecmp ''pub'' tag \<noteq> 0"
    by (simp add: pub_line_def del: gpg_strsep.simps)
  with sep assms(2) show ?thesis
    by (simp add: parse_keyrec_def Let_def del: gpg_strsep.simps)
qed

lemma feed_dead_lines:
  assumes "\<forall>l \<in> set ls. \<not> pub_line l" and "desc_mode (kr_desc w) = KEYDB_SEARCH_MODE_NONE"
  shows "feed_lines e (Ptr w) (map Some ls @ [None]) = Inr (replicate (Suc (length ls)) None, Freed)"
  using assms(1)
proof (induction ls)
  case Nil
  with assms(2) show ?case by (simp add: parse_keyrec_def)
next
  case (Cons l ls)
  then show ?case
    by (simp add: parse_keyrec_other_line [OF _ assms(2)])
qed

text \<open>
  As long as \<^verbatim>\<open>work\<close> does not dangle, a pub line whose token \<^verbatim>\<open>classify_user_id\<close>
  rejects, or takes for something other than a key id or fingerprint, returns at most
  the record of the block before it and leaves a record of mode NONE with nothing
  written to its display buffer. Every line up to the next pub line then returns nothing
  and changes nothing, and the flush at the end returns nothing and releases the record,
  leaving \<^verbatim>\<open>work\<close> dangling.
\<close>

lemma dead_pub_block_valid_work:
  assumes "pub_line line" and "pub_token line = Some tok"
    and "classify_user_id e tok = (err, d)"
    and "err \<noteq> GPG_ERR_NO_ERROR \<or>
         (desc_mode d \<noteq> KEYDB_SEARCH_MODE_SHORT_KID \<and> desc_mode d \<noteq> KEYDB_SEARCH_MODE_LONG_KID \<and>
          desc_mode d \<noteq> KEYDB_SEARCH_MODE_FPR16 \<and> desc_mode d \<noteq> KEYDB_SEARCH_MODE_FPR20)"
    and "work0 \<noteq> Freed"
    and "\<forall>l \<in> set ls. \<not> pub_line l"
  shows "\<exists>w. parse_keyrec e work0 (Some line) =
               Inr ((case work0 of
                       Ptr w0 \<Rightarrow> if desc_mode (kr_desc w0) \<noteq> KEYDB_SEARCH_MODE_NONE
                                 then Some w0 else None
                     | _ \<Rightarrow> None), Ptr w) \<and>
             desc_mode (kr_desc w) = KEYDB_SEARCH_MODE_NONE \<and>
             uidbuf w = (case work0 of
                           Ptr w0 \<Rightarrow> if desc_mode (kr_desc w0) \<noteq> KEYDB_SEARCH_MODE_NONE
                                     then [] else uidbuf w0
                         | _ \<Rightarrow> []) \<and>
             (\<forall>l. \<not> pub_line l \<longrightarrow> parse_keyrec e (Ptr w) (Some l) = Inr (None, Ptr w)) \<and>
             feed_lines e (Ptr w) (map Some ls @ [None]) =
               Inr (replicate (Suc (length ls)) None, Freed)"
proof -
  obtain tag keystring
    where sep: "gpg_strsep (Some (trim_trailing_ws line)) '':'' = (Some tag, keystring)"
    using gpg_strsep_Some by blast
  with assms(1) have pub: "ascii_strcasecmp ''pub'' tag = 0"
    by (simp add: pub_line_def del: gpg_strsep.simps)
  from sep assms(2) obtain keystring1
    where tok: "gpg_strsep keystring '':'' = (Some tok, keystring1)"
    by (cases "gpg_strsep keystring '':''") (simp add: pub_token_def del: gpg_strsep.simps)
  define w0 where "w0 = (case work0 of Ptr w \<Rightarrow> w | _ \<Rightarrow> keyrec_clear)"
  define start where "start = (if desc_mode (kr_desc w0) \<noteq> KEYDB_SEARCH_MODE_NONE
                               then keyrec_clear else w0)"
  define w where "w = start \<lparr> kr_desc := d \<lparr> desc_mode := KEYDB_SEARCH_MODE_NONE \<rparr> \<rparr>"
  have dead: "desc_mode (kr_desc w) = KEYDB_SEARCH_MODE_NONE"
    by (simp add: w_def)
  have "parse_keyrec e work0 (Some line) =
               Inr ((case work0 of
                       Ptr w0 \<Rightarrow> if desc_mode (kr_desc w0) \<noteq> KEYDB_SEARCH_MODE_NONE
                                 then Some w0 else None
                     | _ \<Rightarrow> None), Ptr w)"
    using sep pub tok assms(3,4,5)
    by (cases work0)
       (auto simp: parse_keyrec_def parse_pub_def w_def start_def w0_def keyrec_clear_def
          Let_def simp del: gpg_strsep.simps)
  moreover have "uidbuf w = (case work0 of
                           Ptr w0 \<Rightarrow> if desc_mode (kr_desc w0) \<noteq> KEYDB_SEARCH_MODE_NONE
                                     then [] else uidbuf w0
                         | _ \<Rightarrow> [])"
    by (cases work0) (simp_all add: w_def start_def w0_def keyrec_clear_def)
  ultimately show ?thesis
    using dead parse_keyrec_other_line [OF _ dead] feed_dead_lines [OF assms(6) dead]
    by blast
qed

lemma dead_pub_block_instance:
  "\<exists>w. parse_keyrec sample_env NULL (Some ''pub:not-a-key:'') = Inr (None, Ptr w) \<and>
        desc_mode (kr_desc w) = KEYDB_SEARCH_MODE_NONE \<and>
        parse_keyrec sample_env (Ptr w) (Some ''uid:%41%42:'') = Inr (None, Ptr w) \<and>
        feed_lines sample_env (Ptr w) [Some ''uid:%41%42:'', None] = Inr ([None, None], Freed)"
proof -
  have h1: "pub_line ''pub:not-a-key:''"
    by (simp add: pub_line_def trim_trailing_ws_def ascii_strcasecmp_def ascii_toupper_def)
  have h2: "pub_token ''pub:not-a-key:'' = Some ''not-a-key''"
    by (simp add: pub_token_def trim_trailing_ws_def)
  have h3: "classify_user_id sample_env ''not-a-key'' =
      (GPG_ERR_NO_ERROR, (sample_name ''not-a-key'') \<lparr> desc_mode := KEYDB_SEARCH_MODE_SUBSTR \<rparr>)"
    by (simp add: sample_env_def)
  have h4: "GPG_ERR_NO_ERROR \<noteq> GPG_ERR_NO_ERROR \<or>
      (desc_mode ((sample_name ''not-a-key'') \<lparr> desc_mode := KEYDB_SEARCH_MODE_SUBSTR \<rparr>) \<noteq> KEYDB_SEARCH_MODE_SHORT_KID \<and>
       desc_mode ((sample_name ''not-a-key'') \<lparr> desc_mode := KEYDB_SEARCH_MODE_SUBSTR \<rparr>) \<noteq> KEYDB_SEARCH_MODE_LONG_KID \<and>
       desc_mode ((sample_name ''not-a-key'') \<lparr> desc_mode := KEYDB_SEARCH_MODE_SUBSTR \<rparr>) \<noteq> KEYDB_SEARCH_MODE_FPR16 \<and>
       desc_mode ((sample_name ''not-a-key'') \<lparr> desc_mode := KEYDB_SEARCH_MODE_SUBSTR \<rparr>) \<noteq> KEYDB_SEARCH_MODE_FPR20)"
    by simp
  have h5: "(NULL :: keyrec pointer) \<noteq> Freed" by simp
  have h6: "\<forall>l \<in> set [''uid:%41%42:'']. \<not> pub_line l"
    by (simp add: pub_line_def trim_trailing_ws_def ascii_strcasecmp_def ascii_toupper_def)
  have h7: "\<not> pub_line ''uid:%41%42:''"
    using h6 by simp
  from dead_pub_block_valid_work [OF h1 h2 h3 h4 h5 h6] h7 show ?thesis
    by auto
qed

text \<open>A line never leaves \<^verbatim>\<open>work\<close> dangling; only the flush of a dead record does.\<close>

lemma parse_keyrec_keeps_valid:
  assumes "parse_keyrec e work (Some line) = Inr (ret, work1)" and "work \<noteq> Freed"
  shows "work1 \<noteq> Freed"
  using assms
  by (auto simp: parse_keyrec_def parse_pub_def Let_def
        split: pointer.splits prod.splits if_splits option.splits
        simp del: gpg_strsep.simps)

text \<open>
  C6, evaluated on the code. The flush of a dead record calls \<^verbatim>\<open>xfree (work)\<close> and leaves
  \<^verbatim>\<open>work\<close> pointing to the released record, where the flush of a live record sets
  \<^verbatim>\<open>work = NULL\<close>. The pub line \<^verbatim>\<open>pub:not-a-key:\<close> that comes after such a flush, as
  the first line of the next search does, is not marked dead and ignored: it reads
  \<^verbatim>\<open>work->desc.mode\<close> through the released pointer. The same happens in the handler for
  any line that arrives after the EOF of a search whose last block was dead.
\<close>

theorem dead_flush_dangling_work:
  "feed_lines sample_env NULL [Some ''pub:not-a-key:'', None] = Inr ([None, None], Freed) \<and>
   feed_lines sample_env NULL [Some ''pub:not-a-key:'', None, Some ''pub:not-a-key:''] =
     Inl USE_AFTER_FREE \<and>
   map_sum id (\<lambda>(err, parm, work, t). (err, not_found parm, work))
     (feed_handler sample_env (parm_clear ''key'') NULL sample_io
        [Some ''pub:not-a-key:'', None]) =
     Inr (GPG_ERR_NO_ERROR, True, Freed) \<and>
   search_line_handler sample_env (parm_clear ''key'') 0 (Some ''pub:not-a-key:'') Freed sample_io =
     Inl USE_AFTER_FREE \<and>
   feed_handler sample_env (parm_clear ''key'') NULL sample_io
     [Some ''pub:not-a-key:'', None, Some ''uid:%41%42:''] = Inl USE_AFTER_FREE"
  by code_simp

section \<open>Properties of the search line handler\<close>





text \<open>
  The key array is allocated with the count that the info: line has declared. When there
  is no memory for it, the handler returns the error of the allocation and stores
  nothing.
\<close>

lemma save_key_allocation_fails:
  "map_sum id (\<lambda>(err, parm, work, t). (err, count parm, nkeys parm, parm_desc parm))
     (feed_handler sample_env (parm_clear ''key'') NULL sample_io
        [Some ''info:1:2000000000:'', Some ''pub:1234567812345678:'',
         Some ''pub:1234567812345678:'']) =
     Inr (GPG_ERR_ENOMEM, 2000000000, 0, None)"
  by code_simp



text \<open>
  C8, evaluated on the code. The info: line is recognised as long as \<^verbatim>\<open>any_lines\<close> is
  unset, and a line that completes no record leaves it unset: after a pub line, the
  line \<^verbatim>\<open>info:2:5:\<close> in second place still fails the search with
  \<^verbatim>\<open>GPG_ERR_UNSUPPORTED_PROTOCOL\<close>.
\<close>

theorem late_info_line_handled:
  "map_sum id (\<lambda>(err, parm, work, t). (err, any_lines parm, nkeys parm))
     (feed_handler sample_env (parm_clear ''key'') NULL sample_io
        [Some ''pub:1234567812345678:1:2048:1000000000:0:'', Some ''info:2:5:'']) =
   Inr (GPG_ERR_UNSUPPORTED_PROTOCOL, False, 0)"
  by code_simp



section \<open>Properties of the prompt\<close>

lemma gpg_strsep_split_on:
  "gpg_strsep (Some s) delim = (Some tok, rest) \<Longrightarrow>
     split_on delim s = tok # (case rest of None \<Rightarrow> [] | Some r \<Rightarrow> split_on delim r)"
proof (induction s arbitrary: tok rest)
  case Nil
  then show ?case by simp
next
  case (Cons c cs)
  show ?case
  proof (cases "c \<in> set delim")
    case True
    with Cons.prems show ?thesis by auto
  next
    case False
    obtain tok' rest' where sep: "gpg_strsep (Some cs) delim = (Some tok', rest')"
      using gpg_strsep_Some by blast
    from Cons.IH [OF sep]
    have IH: "split_on delim cs = tok' # (case rest' of None \<Rightarrow> [] | Some r \<Rightarrow> split_on delim r)" .
    from sep False Cons.prems have "tok = c # tok'" and "rest = rest'"
      by (auto split: list.splits)
    with IH False show ?thesis by simp
  qed
qed

lemma select_loop_filter:
  assumes "length numarray \<le> 50"
  shows "select_loop split numdesc numarray =
     (let vs = numarray @ filter (\<lambda>v. 1 \<le> v \<and> v \<le> numdesc) (map atoi (tokens_left split))
      in if length vs > 50 then None else Some vs)"
  using assms
proof (induction split numdesc numarray rule: select_loop.induct)
  case (1 split numdesc numarray)
  show ?case
  proof (cases split)
    case None
    with "1.prems" show ?thesis
      by (subst select_loop.simps) (simp add: tokens_left_def)
  next
    case (Some s)
    obtain num split' where sep: "gpg_strsep split '' ,'' = (Some num, split')"
      using Some gpg_strsep_Some [of s "'' ,''"] by blast
    from gpg_strsep_split_on [of s "'' ,''" num split'] sep Some
    have toks: "tokens_left split = num # tokens_left split'"
      by (simp add: tokens_left_def)
    have unfold: "select_loop split numdesc numarray =
        (if atoi num \<ge> 1 \<and> atoi num \<le> numdesc then
            (if length numarray \<ge> 50 then None
             else select_loop split' numdesc (numarray @ [atoi num]))
          else select_loop split' numdesc numarray)"
      by (subst select_loop.simps) (simp only: sep prod.case option.case)
    show ?thesis
    proof (cases "atoi num \<ge> 1 \<and> atoi num \<le> numdesc")
      case False
      from "1.IH"(2) [OF sep [symmetric] refl False "1.prems"]
      have "select_loop split' numdesc numarray =
          (let vs = numarray @ filter (\<lambda>v. 1 \<le> v \<and> v \<le> numdesc)
                                 (map atoi (tokens_left split'))
           in if length vs > 50 then None else Some vs)" .
      with False show ?thesis
        by (simp only: unfold toks if_False list.map filter.simps)
    next
      case True
      show ?thesis
      proof (cases "length numarray \<ge> 50")
        case full: True
        with True "1.prems" show ?thesis
          by (simp only: unfold toks if_True list.map filter.simps Let_def) simp
      next
        case room: False
        then have "length (numarray @ [atoi num]) \<le> 50" by simp
        from "1.IH"(1) [OF sep [symmetric] refl True room this]
        have "select_loop split' numdesc (numarray @ [atoi num]) =
          (let vs = (numarray @ [atoi num]) @ filter (\<lambda>v. 1 \<le> v \<and> v \<le> numdesc)
                                 (map atoi (tokens_left split'))
           in if length vs > 50 then None else Some vs)" .
        with True room show ?thesis
          by (simp only: unfold toks if_True if_False list.map filter.simps Let_def) simp
      qed
    qed
  qed
qed

text \<open>
  C9, as the specification states it, does not hold: the input is looked at only when
  the number at its very start lies between 1 and the number of records. The answer
  \<^verbatim>\<open>99,1\<close> against three records selects nothing although its token 1 is valid, and the
  answer \<^verbatim>\<open>n\<close>, of which no token survives, is not followed by a new prompt: in both
  cases the prompt returns without error and the next line of input stays unread.
\<close>

theorem show_prompt_counterexample:
  "show_prompt_again sample_env sample_keys 3 [''99,1'', ''2''] sample_io =
     Inr (GPG_ERR_NO_ERROR, sample_io \<lparr> answers := [''2''] \<rparr>) \<and>
   show_prompt_again sample_env sample_keys 3 [''n'', ''2''] sample_io =
     Inr (GPG_ERR_NO_ERROR, sample_io \<lparr> answers := [''2''] \<rparr>)"
  by code_simp

text \<open>
  C9, amended. For an answer that is not a quit, the prompt returns at once and without
  error when \<^verbatim>\<open>atoi\<close> of the whole answer is not between 1 and the number of records.
  Otherwise it splits the answer at blanks and commas and keeps the \<^verbatim>\<open>atoi\<close> values
  between 1 and the number of records; with more than 50 of them it warns and asks
  again, keeping none, and else it calls \<^verbatim>\<open>keyserver_get\<close> on exactly the records
  selected and returns its result.
\<close>

theorem show_prompt_selection:
  assumes "take 1 answer \<noteq> [CHR 0x04]" and "take 1 answer \<noteq> ''q''" and "take 1 answer \<noteq> ''Q''"
  shows "show_prompt_again e desc numdesc (answer # rest) t =
     (if \<not> (1 \<le> atoi answer \<and> atoi answer \<le> numdesc) then
        Inr (GPG_ERR_NO_ERROR, t \<lparr> answers := rest \<rparr>)
      else if length (selected numdesc answer) > 50 then
        show_prompt_again e desc numdesc rest
          (t \<lparr> out := out t @ [TTY_TEXT (''Too many keys selected'' @ [CHR 0x0A])] \<rparr>)
      else if selected numdesc answer = [] then show_prompt_again e desc numdesc rest t
      else if \<exists>v \<in> set (selected numdesc answer). \<not> nat (v - 1) < length desc then
        Inl OUT_OF_BOUNDS
      else
        (case keyserver_get (gpg_dirmngr_ks_get e)
                (map (\<lambda>v. desc ! nat (v - 1)) (selected numdesc answer)) of
           Inl f \<Rightarrow> Inl f
         | Inr (err, chunks) \<Rightarrow>
             Inr (err, t \<lparr> answers := rest, requested := requested t @ chunks \<rparr>)))"
proof -
  have sel: "select_loop (Some answer) numdesc [] =
      (if length (selected numdesc answer) > 50 then None else Some (selected numdesc answer))"
    by (simp add: select_loop_filter selected_def tokens_left_def Let_def)
  show ?thesis
    using assms by (simp add: sel Let_def)
qed

theorem show_prompt_selection_witness:
  "show_prompt_again sample_env sample_keys 3 [''1,3,99''] sample_io =
     (case keyserver_get sample_ks
             [sample_desc KEYDB_SEARCH_MODE_LONG_KID 0 1, sample_desc KEYDB_SEARCH_MODE_LONG_KID 0 3] of
        Inl f \<Rightarrow> Inl f
      | Inr (err, chunks) \<Rightarrow> Inr (err, sample_io \<lparr> answers := [], requested := requested sample_io @ chunks \<rparr>))"
proof -
  have sel: "selected 3 ''1,3,99'' = [1, 3]"
    by code_simp
  have first: "atoi ''1,3,99'' = 1"
    by code_simp
  have quit: "take 1 ''1,3,99'' \<noteq> [CHR 0x04]" "take 1 ''1,3,99'' \<noteq> ''q''"
    "take 1 ''1,3,99'' \<noteq> ''Q''"
    by simp_all
  have env: "gpg_dirmngr_ks_get sample_env = sample_ks"
    by (simp add: sample_env_def)
  have io: "requested sample_io = []"
    by (simp add: sample_io_def)
  show ?thesis
    using show_prompt_selection [OF quit, of sample_env sample_keys 3 "[]" sample_io]
    by (simp add: sel first env io sample_keys_def del: show_prompt_again.simps)
qed

end
